theory Spec2Isabelle
  imports Complex_Main
begin

section \<open>Numbers\<close>

text \<open>
  The program is TypeScript; every quantity (price, size, nonce, timestamp, basis points)
  is a \<^verbatim>\<open>number\<close>, an IEEE 754 binary64 value. A \<^verbatim>\<open>number\<close> is
  modelled by the real it denotes; \<^verbatim>\<open>NaN\<close> and the infinities are not values
  of the model. Comparisons are exact. The arithmetic of the orderbook (the sum of two
  sizes) and of the quoter (spread, tick rounding, size rounding) is the exact operation
  followed by \<open>binary64\<close>, the rounding to the nearest binary64 value, as the program
  computes it. The moving average of the fair price is kept in exact arithmetic: what is
  stated about it is which operands are combined, not the value they round to. A theorem
  whose statement depends on a quotient by a variable carries the hypothesis that the
  divisor is not zero, where JavaScript gives an infinity. An optional field
  (\<^verbatim>\<open>nonce?: number\<close>) is an \<open>option\<close>, \<open>None\<close> standing for
  \<^verbatim>\<open>undefined\<close>.
\<close>

type_synonym number = real

text \<open>
  Rounding to binary64, ties to even. A binary64 value has 53 significant bits: \<open>x\<close>
  with \<open>2\<^sup>k \<le> |x| < 2\<^sup>k\<^sup>+\<^sup>1\<close> rounds to a nearest multiple of
  \<open>2\<^sup>k\<^sup>-\<^sup>5\<^sup>2\<close>, to the even one of two nearest. Overflow and subnormal
  results are outside the model.
\<close>

definition roundTiesToEven :: "real \<Rightarrow> int" where
  "roundTiesToEven x =
     (let f = \<lfloor>x\<rfloor>; r = x - of_int f
      in if r < 1 / 2 then f else if 1 / 2 < r then f + 1 else if even f then f else f + 1)"

definition binary64 :: "real \<Rightarrow> real" where
  "binary64 x =
     (if x = 0 then 0
      else (let e = \<lfloor>log 2 \<bar>x\<bar>\<rfloor> - 52
            in of_int (roundTiesToEven (x / 2 powi e)) * 2 powi e))"

text \<open>
  \<^verbatim>\<open>a || b\<close> on an optional number: \<^verbatim>\<open>undefined\<close> and
  \<^verbatim>\<open>0\<close> are falsy and give \<open>b\<close>.
\<close>

definition num_or :: "number option \<Rightarrow> number \<Rightarrow> number" where
  "num_or a b = (case a of None \<Rightarrow> b | Some v \<Rightarrow> if v = 0 then b else v)"

text \<open>The same on an optional string: the empty string is falsy.\<close>

definition str_or :: "string option \<Rightarrow> string \<Rightarrow> string" where
  "str_or a b = (case a of None \<Rightarrow> b | Some v \<Rightarrow> if v = [] then b else v)"

section \<open>Orderbook reconciliation (class AftermathOrderbookSubscription)\<close>

text \<open>A price level is the pair \<^verbatim>\<open>[price, size]\<close>.\<close>

type_synonym level = "number \<times> number"

record Orderbook =
  symbol :: string
  bids :: "level list"
  asks :: "level list"
  timestamp :: number
  nonce :: "number option"

text \<open>The snapshot as the venue answers it (\<^verbatim>\<open>AftermathOrderbook\<close>).\<close>

record AftermathOrderbook =
  r_bids :: "level list"
  r_asks :: "level list"
  r_symbol :: "string option"
  r_timestamp :: "number option"
  r_nonce :: "number option"

text \<open>One message of the stream (\<^verbatim>\<open>AftermathOrderbookDelta\<close>).\<close>

record AftermathOrderbookDelta =
  d_bids :: "level list"
  d_asks :: "level list"
  d_timestamp :: number
  d_nonce :: number

text \<open>
  \<^verbatim>\<open>getOrderbook\<close> copies the response into an \<^verbatim>\<open>Orderbook\<close>;
  \<open>now\<close> is the reading of \<^verbatim>\<open>Date.now()\<close>. The levels are taken
  as they come: nothing sorts or checks them.
\<close>

definition getOrderbook :: "AftermathOrderbook \<Rightarrow> string \<Rightarrow> number \<Rightarrow> Orderbook" where
  "getOrderbook response chId now =
     \<lparr> symbol = str_or (r_symbol response) chId,
       bids = r_bids response,
       asks = r_asks response,
       timestamp = num_or (r_timestamp response) now,
       nonce = r_nonce response \<rparr>"

text \<open>
  \<^verbatim>\<open>Array.prototype.findIndex\<close>: the index of the first element that
  satisfies the predicate, \<open>-1\<close> when there is none.
\<close>

fun findIndex :: "('a \<Rightarrow> bool) \<Rightarrow> 'a list \<Rightarrow> int" where
  "findIndex P [] = - 1"
| "findIndex P (x # xs) =
     (if P x then 0
      else (let r = findIndex P xs in if r < 0 then - 1 else r + 1))"

text \<open>
  \<^verbatim>\<open>applyPriceLevelDelta(levels, price, amountDelta, isBid)\<close>. The array is
  mutated in place in the source; the model returns the new array. The new amount is the
  binary64 sum of the old amount and the delta.
  \<^verbatim>\<open>splice(i, 1)\<close> drops the element at \<open>i\<close>,
  \<^verbatim>\<open>splice(i, 0, v)\<close> puts \<open>v\<close> before it,
  \<^verbatim>\<open>push\<close> appends.
\<close>

definition applyPriceLevelDelta :: "level list \<Rightarrow> number \<Rightarrow> number \<Rightarrow> bool \<Rightarrow> level list" where
  "applyPriceLevelDelta levels price amountDelta isBid =
     (let existingIndex = findIndex (\<lambda>(p, a). p = price) levels in
      if existingIndex \<ge> 0 then
        (let i = nat existingIndex;
             newAmount = binary64 (snd (levels ! i) + amountDelta) in
         if newAmount \<le> 0 then take i levels @ drop (Suc i) levels
         else levels[i := (fst (levels ! i), newAmount)])
      else if amountDelta > 0 then
        (let insertIndex = findIndex (\<lambda>(p, a). if isBid then p < price else p > price) levels in
         if insertIndex \<ge> 0 then
           take (nat insertIndex) levels @ (price, amountDelta) # drop (nat insertIndex) levels
         else levels @ [(price, amountDelta)])
      else levels)"

text \<open>The loop \<^verbatim>\<open>for (const [price, amountDelta] of delta.bids)\<close>.\<close>

fun applyLevelDeltas :: "level list \<Rightarrow> level list \<Rightarrow> bool \<Rightarrow> level list" where
  "applyLevelDeltas levels [] isBid = levels"
| "applyLevelDeltas levels ((price, amountDelta) # rest) isBid =
     applyLevelDeltas (applyPriceLevelDelta levels price amountDelta isBid) rest isBid"

text \<open>
  The state of an \<^verbatim>\<open>AftermathOrderbookSubscription\<close>: the markets with an
  open event source, and the local book of each market. The callbacks, the reconnect timers
  and the logger never write a book and are left out.
\<close>

record AftermathOrderbookSubscription =
  eventSources :: "string set"
  localOrderbooks :: "string \<rightharpoonup> Orderbook"

text \<open>
  \<^verbatim>\<open>applyDelta(chId, delta)\<close>: no local book, or a nonce that is not beyond
  the book's defined nonce, and the call returns at once; otherwise the bid and ask deltas are
  applied and the book takes the timestamp and the nonce of the delta.
\<close>

definition applyDelta ::
  "AftermathOrderbookSubscription \<Rightarrow> string \<Rightarrow> AftermathOrderbookDelta \<Rightarrow> AftermathOrderbookSubscription" where
  "applyDelta s chId delta =
     (case localOrderbooks s chId of
        None \<Rightarrow> s
      | Some book \<Rightarrow>
          if nonce book \<noteq> None \<and> d_nonce delta \<le> the (nonce book) then s
          else
            (let book' = book \<lparr> bids := applyLevelDeltas (bids book) (d_bids delta) True,
                                asks := applyLevelDeltas (asks book) (d_asks delta) False,
                                timestamp := d_timestamp delta,
                                nonce := Some (d_nonce delta) \<rparr>
             in s \<lparr> localOrderbooks := (localOrderbooks s)(chId \<mapsto> book') \<rparr>))"

text \<open>A subscription as the constructor leaves it: every map is empty.\<close>

definition newSubscription :: AftermathOrderbookSubscription where
  "newSubscription = \<lparr> eventSources = {}, localOrderbooks = Map.empty \<rparr>"

text \<open>
  \<^verbatim>\<open>subscribeOrderbook(chId, callback)\<close>. A market that already has an
  event source only has its callback replaced. Otherwise the snapshot is fetched and stored
  as the local book and the stream is connected. \<open>response\<close> is what the venue
  answers, \<open>None\<close> when the request fails: the error is thrown again and the
  subscription is as it was.
\<close>

datatype error = FetchFailed | ConfigError string

definition subscribeOrderbook ::
  "AftermathOrderbookSubscription \<Rightarrow> string \<Rightarrow> AftermathOrderbook option \<Rightarrow> number
     \<Rightarrow> error + AftermathOrderbookSubscription" where
  "subscribeOrderbook s chId response now =
     (if chId \<in> eventSources s then Inr s
      else
        (case response of
           None \<Rightarrow> Inl FetchFailed
         | Some r \<Rightarrow>
             Inr (s \<lparr> localOrderbooks := (localOrderbooks s)(chId \<mapsto> getOrderbook r chId now),
                      eventSources := insert chId (eventSources s) \<rparr>)))"

text \<open>The deltas of one market delivered one after the other, as the stream hands them over.\<close>

fun applyDeltas ::
  "AftermathOrderbookSubscription \<Rightarrow> string \<Rightarrow> AftermathOrderbookDelta list \<Rightarrow> AftermathOrderbookSubscription" where
  "applyDeltas s chId [] = s"
| "applyDeltas s chId (delta # rest) = applyDeltas (applyDelta s chId delta) chId rest"

text \<open>
  The order of a side: bids strictly descending by price, asks strictly ascending. A strict
  order leaves no two levels at one price.
\<close>

definition sideSorted :: "bool \<Rightarrow> level list \<Rightarrow> bool" where
  "sideSorted isBid levels =
     (if isBid then sorted_wrt (>) (map fst levels) else sorted_wrt (<) (map fst levels))"

definition bookSorted :: "Orderbook \<Rightarrow> bool" where
  "bookSorted book = (sideSorted True (bids book) \<and> sideSorted False (asks book))"

text \<open>One side of a book, and the pairs of a delta for that side.\<close>

definition sideLevels :: "bool \<Rightarrow> Orderbook \<Rightarrow> level list" where
  "sideLevels isBid book = (if isBid then bids book else asks book)"

definition sidePairs :: "bool \<Rightarrow> AftermathOrderbookDelta \<Rightarrow> level list" where
  "sidePairs isBid delta = (if isBid then d_bids delta else d_asks delta)"

section \<open>Fair price (class FairPriceCalculator)\<close>

record FairPriceConfig =
  c_windowMs :: "number option"
  c_alpha :: "number option"
  c_minPrices :: "number option"
  c_warmupMs :: "number option"

definition DEFAULT_WINDOW_MS :: number where
  "DEFAULT_WINDOW_MS = 5 * 60 * 1000"

definition DEFAULT_MIN_PRICES :: number where
  "DEFAULT_MIN_PRICES = 10"

definition DEFAULT_WARMUP_MS :: number where
  "DEFAULT_WARMUP_MS = 10 * 1000"

text \<open>
  The fields of a \<^verbatim>\<open>FairPriceCalculator\<close> that its own methods read and
  write. The price feed and the callbacks are the outside world: the feed calls
  \<^verbatim>\<open>updateEMA\<close>, the callbacks are told the new value.
\<close>

record FairPriceCalculator =
  ema :: "number option"
  alpha :: number
  priceCount :: nat
  minPrices :: number
  warmupMs :: number
  startTime :: number
  lastUpdateTime :: "number option"

text \<open>
  The constructor; \<open>config\<close> is the optional second argument and \<open>now\<close>
  the reading of \<^verbatim>\<open>Date.now()\<close>. Every \<^verbatim>\<open>config?.x || d\<close>
  takes the default for a field that is absent or zero.
\<close>

definition newFairPriceCalculator :: "FairPriceConfig option \<Rightarrow> number \<Rightarrow> FairPriceCalculator" where
  "newFairPriceCalculator config now =
     (let windowMs = num_or (Option.bind config c_windowMs) DEFAULT_WINDOW_MS;
          estimatedPeriods = windowMs / 1000
      in \<lparr> ema = None,
           alpha = num_or (Option.bind config c_alpha) (2 / (estimatedPeriods + 1)),
           priceCount = 0,
           minPrices = num_or (Option.bind config c_minPrices) DEFAULT_MIN_PRICES,
           warmupMs = num_or (Option.bind config c_warmupMs) DEFAULT_WARMUP_MS,
           startTime = now,
           lastUpdateTime = None \<rparr>)"

definition updateEMA :: "FairPriceCalculator \<Rightarrow> number \<Rightarrow> number \<Rightarrow> FairPriceCalculator" where
  "updateEMA s price ts =
     s \<lparr> ema := (case ema s of
                   None \<Rightarrow> Some price
                 | Some e \<Rightarrow> Some (alpha s * price + (1 - alpha s) * e)),
         priceCount := priceCount s + 1,
         lastUpdateTime := Some ts \<rparr>"

text \<open>The ticks \<open>(price, timestamp)\<close> the feed delivers, in order.\<close>

fun feedTicks :: "FairPriceCalculator \<Rightarrow> (number \<times> number) list \<Rightarrow> FairPriceCalculator" where
  "feedTicks s [] = s"
| "feedTicks s ((price, ts) # rest) = feedTicks (updateEMA s price ts) rest"

text \<open>The three queries read the clock; \<open>now\<close> is its reading at the call.\<close>

definition isWarmedUp :: "FairPriceCalculator \<Rightarrow> number \<Rightarrow> bool" where
  "isWarmedUp s now =
     (let elapsed = now - startTime s
      in elapsed \<ge> warmupMs s \<and> real (priceCount s) \<ge> minPrices s)"

definition isReady :: "FairPriceCalculator \<Rightarrow> number \<Rightarrow> bool" where
  "isReady s now = (ema s \<noteq> None \<and> isWarmedUp s now)"

definition getFairPrice :: "FairPriceCalculator \<Rightarrow> number \<Rightarrow> number option" where
  "getFairPrice s now = (if \<not> isReady s now then None else ema s)"

section \<open>Configuration (validateConfig)\<close>

record MarketMakerConfig =
  exchange :: string
  cfg_symbol :: string
  priceSource :: string
  spreadBps :: number
  takeProfitBps :: number
  orderSizeUsd :: number
  closeThresholdUsd :: number
  maxPositionUsd :: number
  warmupSeconds :: number
  updateThrottleMs :: number
  orderSyncIntervalMs :: number
  fairPriceWindowMs :: number
  minMarginRatio :: number

text \<open>
  \<^verbatim>\<open>mergeConfig(exchange, symbol)\<close> when neither the environment nor the
  caller overrides a field: the values of \<^verbatim>\<open>DEFAULT_CONFIG\<close> with the
  exchange and the symbol.
\<close>

definition mergeConfig :: "string \<Rightarrow> string \<Rightarrow> MarketMakerConfig" where
  "mergeConfig exchange_name symbol_name =
     \<lparr> exchange = exchange_name,
       cfg_symbol = symbol_name,
       priceSource = ''binance'',
       spreadBps = 10,
       takeProfitBps = 5,
       orderSizeUsd = 100,
       closeThresholdUsd = 500,
       maxPositionUsd = 2000,
       warmupSeconds = 10,
       updateThrottleMs = 100,
       orderSyncIntervalMs = 3000,
       fairPriceWindowMs = 5 * 60 * 1000,
       minMarginRatio = 1 / 10 \<rparr>"

text \<open>
  \<^verbatim>\<open>validateConfig\<close> throws at the first check that fails; the thrown
  message is the \<open>Inl\<close> value. An empty string is falsy.
\<close>

definition validateConfig :: "MarketMakerConfig \<Rightarrow> error + unit" where
  "validateConfig c =
     (if exchange c = [] then Inl (ConfigError ''Exchange is required'')
      else if cfg_symbol c = [] then Inl (ConfigError ''Symbol is required'')
      else if spreadBps c \<le> 0 then Inl (ConfigError ''spreadBps must be positive'')
      else if orderSizeUsd c \<le> 0 then Inl (ConfigError ''orderSizeUsd must be positive'')
      else if closeThresholdUsd c \<le> 0 then Inl (ConfigError ''closeThresholdUsd must be positive'')
      else if maxPositionUsd c \<le> closeThresholdUsd c
        then Inl (ConfigError ''maxPositionUsd must be greater than closeThresholdUsd'')
      else Inr ())"

section \<open>Quoting (class Quoter)\<close>

text \<open>
  The shared types, with the fields the quoter reads or writes. \<^verbatim>\<open>Market\<close>
  loses its \<^verbatim>\<open>base\<close>, \<^verbatim>\<open>quote\<close>, \<^verbatim>\<open>maxSize\<close> and
  \<^verbatim>\<open>raw\<close>; the order type \<^verbatim>\<open>"market"\<close> is written
  \<open>market_order\<close>, the name \<open>market\<close> being the field of the quoter.
\<close>

record Market =
  m_id :: string
  m_symbol :: string
  pricePrecision :: nat
  sizePrecision :: nat
  minSize :: number
  tickSize :: number

datatype Side = buy | sell

datatype OrderType = limit | market_order

record OrderRequest =
  o_symbol :: string
  o_side :: Side
  o_type :: OrderType
  o_price :: number
  o_size :: number
  postOnly :: "bool option"
  reduceOnly :: "bool option"
  clientId :: "string option"

record Quote =
  bidPrice :: number
  askPrice :: number
  bidSize :: number
  askSize :: number
  fairPrice :: number
  q_spreadBps :: number
  isCloseMode :: bool

record Quoter =
  config :: MarketMakerConfig
  market :: "Market option"

datatype direction = up | down

text \<open>
  \<^verbatim>\<open>roundToTick\<close>, as the program computes it. It takes its tick from the
  configured symbol, not from the market: 0.1 for BTC and ETH, 0.01 for HYPE, 0.00001 for
  every other symbol. The literals denote the binary64 values nearest to them; the quotient
  and the product are rounded; \<^verbatim>\<open>Math.floor\<close> and
  \<^verbatim>\<open>Math.ceil\<close> are exact.
\<close>

definition roundToTick_binary64 :: "Quoter \<Rightarrow> real \<Rightarrow> direction \<Rightarrow> real" where
  "roundToTick_binary64 q p direction =
     (let tick =
        (if cfg_symbol (config q) = ''BTC'' \<or> cfg_symbol (config q) = ''ETH'' then binary64 (1 / 10)
         else if cfg_symbol (config q) = ''HYPE'' then binary64 (1 / 100)
         else binary64 (1 / 100000))
      in if direction = down then binary64 (of_int \<lfloor>binary64 (p / tick)\<rfloor> * tick)
         else binary64 (of_int \<lceil>binary64 (p / tick)\<rceil> * tick))"

text \<open>
  \<^verbatim>\<open>roundSize\<close>: the multiplier \<^verbatim>\<open>10 ** precision\<close>, the product
  and the quotient are rounded; a power of ten up to \<open>10\<^sup>2\<^sup>2\<close> is a binary64 value.
\<close>

definition roundSize :: "Quoter \<Rightarrow> number \<Rightarrow> number" where
  "roundSize q sz =
     (case market q of
        None \<Rightarrow> sz
      | Some m \<Rightarrow>
          (let precision = sizePrecision m;
               multiplier = binary64 (10 ^ precision)
           in binary64 (of_int \<lfloor>binary64 (sz * multiplier)\<rfloor> / multiplier)))"

definition generateQuotes :: "Quoter \<Rightarrow> number \<Rightarrow> number \<Rightarrow> Quote" where
  "generateQuotes q fp positionNotional =
     (let closeMode = \<bar>positionNotional\<bar> > closeThresholdUsd (config q);
          bps = (if closeMode then takeProfitBps (config q) else spreadBps (config q));
          spreadMultiplier = binary64 (bps / 10000);
          bidPrice0 = binary64 (fp * binary64 (1 - spreadMultiplier));
          askPrice0 = binary64 (fp * binary64 (1 + spreadMultiplier));
          bidPrice1 = (if market q \<noteq> None then roundToTick_binary64 q bidPrice0 down else bidPrice0);
          askPrice1 = (if market q \<noteq> None then roundToTick_binary64 q askPrice0 up else askPrice0);
          baseSize = binary64 (orderSizeUsd (config q) / fp);
          bidSize0 = (if closeMode \<and> positionNotional > 0 then 0 else baseSize);
          askSize0 = (if closeMode \<and> \<not> positionNotional > 0 then 0 else baseSize);
          bidSize1 = (if market q \<noteq> None then roundSize q bidSize0 else bidSize0);
          askSize1 = (if market q \<noteq> None then roundSize q askSize0 else askSize0)
      in \<lparr> bidPrice = bidPrice1,
           askPrice = askPrice1,
           bidSize = bidSize1,
           askSize = askSize1,
           fairPrice = fp,
           q_spreadBps = bps,
           isCloseMode = closeMode \<rparr>)"

text \<open>
  The two prices of \<^verbatim>\<open>generateQuotes\<close> alone: the mode, the spread multiplier,
  the raw bid and ask, and their rounding to the tick when a market is set.
\<close>

definition generateQuotes_prices_binary64 :: "Quoter \<Rightarrow> real \<Rightarrow> real \<Rightarrow> real \<times> real" where
  "generateQuotes_prices_binary64 q fp positionNotional =
     (let closeMode = \<bar>positionNotional\<bar> > closeThresholdUsd (config q);
          bps = (if closeMode then takeProfitBps (config q) else spreadBps (config q));
          spreadMultiplier = binary64 (bps / 10000);
          bidPrice0 = binary64 (fp * binary64 (1 - spreadMultiplier));
          askPrice0 = binary64 (fp * binary64 (1 + spreadMultiplier))
      in if market q \<noteq> None
         then (roundToTick_binary64 q bidPrice0 down, roundToTick_binary64 q askPrice0 up)
         else (bidPrice0, askPrice0))"

definition quoteToOrders :: "Quoter \<Rightarrow> Quote \<Rightarrow> OrderRequest list" where
  "quoteToOrders q quote =
     (let shouldReduce = False;
          shouldPostOnly = True
      in (if bidSize quote > 0
          then [\<lparr> o_symbol = cfg_symbol (config q), o_side = buy, o_type = limit,
                   o_price = roundToTick_binary64 q (bidPrice quote) down,
                   o_size = roundSize q (bidSize quote),
                   postOnly = Some shouldPostOnly, reduceOnly = Some shouldReduce,
                   clientId = None \<rparr>]
          else [])
       @ (if askSize quote > 0
          then [\<lparr> o_symbol = cfg_symbol (config q), o_side = sell, o_type = limit,
                   o_price = roundToTick_binary64 q (askPrice quote) up,
                   o_size = roundSize q (askSize quote),
                   postOnly = Some shouldPostOnly, reduceOnly = Some shouldReduce,
                   clientId = None \<rparr>]
          else []))"

section \<open>Properties of binary64 rounding\<close>

text \<open>The integer chosen is a nearest one, and an integer is kept.\<close>

lemma roundTiesToEven_nearest: "\<bar>of_int (roundTiesToEven x) - x\<bar> \<le> 1 / 2"
proof -
  define r where "r = x - of_int \<lfloor>x\<rfloor>"
  have r: "0 \<le> r" "r < 1" and x: "x = of_int \<lfloor>x\<rfloor> + r"
    unfolding r_def by linarith+
  consider "r < 1 / 2" | "1 / 2 < r" | "r = 1 / 2" by linarith
  then show ?thesis
  proof cases
    case 1
    then have "roundTiesToEven x = \<lfloor>x\<rfloor>"
      by (simp add: roundTiesToEven_def r_def)
    then show ?thesis using 1 r x by linarith
  next
    case 2
    then have "roundTiesToEven x = \<lfloor>x\<rfloor> + 1"
      by (simp add: roundTiesToEven_def r_def)
    then show ?thesis using 2 r x by linarith
  next
    case 3
    then have "roundTiesToEven x = \<lfloor>x\<rfloor> \<or> roundTiesToEven x = \<lfloor>x\<rfloor> + 1"
      by (simp add: roundTiesToEven_def r_def Let_def)
    then show ?thesis using 3 x by linarith
  qed
qed

lemma roundTiesToEven_int: "roundTiesToEven (of_int n) = n"
  by (simp add: roundTiesToEven_def)

lemma binary64_zero [simp]: "binary64 0 = 0"
  by (simp add: binary64_def)

text \<open>The exponent of a value is fixed by the powers of two around it.\<close>

lemma binary64_at:
  assumes "2 powi k \<le> \<bar>x\<bar>" and "\<bar>x\<bar> < 2 powi (k + 1)"
  shows "binary64 x = of_int (roundTiesToEven (x / 2 powi (k - 52))) * 2 powi (k - 52)"
proof -
  have "(0::real) < 2 powi k"
    by simp
  then have pos: "0 < \<bar>x\<bar>"
    using assms(1) by linarith
  have "(2::real) powr real_of_int k = 2 powi k"
    and "(2::real) powr real_of_int (k + 1) = 2 powi (k + 1)"
    by (rule powr_real_of_int'; simp)+
  then have "2 powr real_of_int k \<le> \<bar>x\<bar> \<and> \<bar>x\<bar> < 2 powr real_of_int (k + 1)"
    using assms by (simp only:)
  then have "\<lfloor>log 2 \<bar>x\<bar>\<rfloor> = k"
    using pos by (subst floor_log_eq_powr_iff) simp_all
  then show ?thesis
    using pos by (simp add: binary64_def Let_def)
qed

text \<open>The rounded value is within half a unit in the last place of the exact one.\<close>

lemma binary64_half_ulp:
  assumes "2 powi k \<le> \<bar>x\<bar>" and "\<bar>x\<bar> < 2 powi (k + 1)"
  shows "\<bar>binary64 x - x\<bar> \<le> 2 powi (k - 53)"
proof -
  let ?u = "(2::real) powi (k - 52)"
  have u: "0 < ?u" by simp
  have "binary64 x - x = (of_int (roundTiesToEven (x / ?u)) - x / ?u) * ?u"
    using u by (simp add: binary64_at[OF assms] algebra_simps)
  then have "\<bar>binary64 x - x\<bar> = \<bar>of_int (roundTiesToEven (x / ?u)) - x / ?u\<bar> * ?u"
    using u by (simp add: abs_mult)
  also have "\<dots> \<le> 1 / 2 * ?u"
    using u roundTiesToEven_nearest[of "x / ?u"] by (intro mult_right_mono) simp_all
  also have "\<dots> = 2 powi (k - 53)"
    using power_int_add[of "2::real" "k - 53" 1] by simp
  finally show ?thesis .
qed

text \<open>
  Every value other than 0 lies between two powers of two, so rounding keeps the sign: the
  sum of two sizes is \<open>\<le> 0\<close> after rounding exactly when it is before.
\<close>

lemma binary64_exponent:
  fixes x :: real
  assumes "x \<noteq> 0"
  obtains k where "2 powi k \<le> \<bar>x\<bar>" and "\<bar>x\<bar> < 2 powi (k + 1)"
proof -
  define k where "k = \<lfloor>log 2 \<bar>x\<bar>\<rfloor>"
  have pos: "0 < \<bar>x\<bar>"
    using assms by simp
  have "2 powr real_of_int k \<le> \<bar>x\<bar> \<and> \<bar>x\<bar> < 2 powr real_of_int (k + 1)"
    using pos floor_log_eq_powr_iff[of "\<bar>x\<bar>" 2 k] by (simp add: k_def)
  moreover have "(2::real) powr real_of_int k = 2 powi k"
    and "(2::real) powr real_of_int (k + 1) = 2 powi (k + 1)"
    by (rule powr_real_of_int'; simp)+
  ultimately have "2 powi k \<le> \<bar>x\<bar> \<and> \<bar>x\<bar> < 2 powi (k + 1)"
    by (simp only:)
  then show ?thesis
    using that by blast
qed

lemma binary64_pos:
  assumes "0 < x"
  shows "0 < binary64 x"
proof -
  obtain k where k: "2 powi k \<le> \<bar>x\<bar>" "\<bar>x\<bar> < 2 powi (k + 1)"
    using assms binary64_exponent[of x] by auto
  let ?u = "(2::real) powi (k - 52)"
  have u: "0 < ?u" by simp
  have "(2::real) powi k = 2 powi 52 * ?u"
    using power_int_add[of "2::real" 52 "k - 52"] by simp
  moreover have "1 * ?u \<le> 2 powi 52 * ?u"
    by (intro mult_right_mono) simp_all
  ultimately have "1 * ?u \<le> x"
    using k(1) assms by linarith
  then have "1 \<le> x / ?u"
    using u by (simp only: pos_le_divide_eq)
  then have "1 \<le> \<lfloor>x / ?u\<rfloor>"
    by (simp add: le_floor_iff)
  moreover have "\<lfloor>x / ?u\<rfloor> \<le> roundTiesToEven (x / ?u)"
    by (simp add: roundTiesToEven_def Let_def)
  ultimately have "0 < real_of_int (roundTiesToEven (x / ?u))"
    by linarith
  then show ?thesis
    using u by (simp add: binary64_at[OF k])
qed

lemma binary64_neg:
  assumes "x < 0"
  shows "binary64 x < 0"
proof -
  obtain k where k: "2 powi k \<le> \<bar>x\<bar>" "\<bar>x\<bar> < 2 powi (k + 1)"
    using assms binary64_exponent[of x] by auto
  let ?u = "(2::real) powi (k - 52)"
  have u: "0 < ?u" by simp
  have "(2::real) powi k = 2 powi 52 * ?u"
    using power_int_add[of "2::real" 52 "k - 52"] by simp
  moreover have "2 * ?u \<le> 2 powi 52 * ?u"
    by (intro mult_right_mono) simp_all
  ultimately have "x \<le> (- 2) * ?u"
    using k(1) assms by linarith
  then have "x / ?u \<le> - 2"
    using u by (simp only: pos_divide_le_eq)
  then have "\<lfloor>x / ?u\<rfloor> \<le> - 2"
    by (simp add: floor_le_iff)
  moreover have "roundTiesToEven (x / ?u) \<le> \<lfloor>x / ?u\<rfloor> + 1"
    by (simp add: roundTiesToEven_def Let_def)
  ultimately have "real_of_int (roundTiesToEven (x / ?u)) < 0"
    by linarith
  then show ?thesis
    using u by (simp add: binary64_at[OF k] mult_neg_pos)
qed

lemma binary64_le_zero_iff: "binary64 x \<le> 0 \<longleftrightarrow> x \<le> 0"
  using binary64_pos[of x] binary64_neg[of x] by (cases "x = 0") (auto simp: not_le[symmetric])

lemma binary64_nonneg: "0 \<le> x \<Longrightarrow> 0 \<le> binary64 x"
  using binary64_pos[of x] by (cases "x = 0") auto

lemma binary64_pos_iff: "0 < binary64 x \<longleftrightarrow> 0 < x"
  using binary64_le_zero_iff[of x] by linarith

text \<open>
  An integer below \<open>2\<^sup>5\<^sup>3\<close> in absolute value is a binary64 value.
\<close>

lemma binary64_of_int:
  assumes "\<bar>n\<bar> < 2 ^ 53"
  shows "binary64 (of_int n) = of_int n"
proof (cases "n = 0")
  case True
  then show ?thesis by simp
next
  case False
  then obtain k where k: "2 powi k \<le> \<bar>real_of_int n\<bar>" "\<bar>real_of_int n\<bar> < 2 powi (k + 1)"
    using binary64_exponent[of "real_of_int n"] by auto
  have "\<bar>real_of_int n\<bar> < 2 powi 53"
    using assms by (simp flip: of_int_abs)
  then have "(2::real) powi k < 2 powi 53"
    using k(1) by linarith
  then have "k < 53"
    by (rule power_int_le_imp_less_exp[rotated]) simp_all
  then have e: "0 \<le> 52 - k" by simp
  define j where "j = nat (52 - k)"
  have "(2::real) powi (k - 52) * 2 powi (52 - k) = 1"
    using power_int_add[of "2::real" "k - 52" "52 - k"] by simp
  moreover have pw: "(2::real) powi (52 - k) = 2 ^ j"
    using e by (simp add: j_def power_int_def)
  ultimately have inv: "(2::real) powi (k - 52) * 2 ^ j = 1"
    by simp
  then have "real_of_int n / 2 powi (k - 52) = real_of_int n * 2 ^ j"
    by (simp add: divide_eq_eq mult.assoc mult.commute[of "2 ^ j"])
  also have "\<dots> = real_of_int (n * 2 ^ j)"
    by simp
  finally have "roundTiesToEven (real_of_int n / 2 powi (k - 52)) = n * 2 ^ j"
    by (simp only: roundTiesToEven_int)
  then have "binary64 (of_int n) = real_of_int (n * 2 ^ j) * 2 powi (k - 52)"
    by (simp only: binary64_at[OF k])
  also have "\<dots> = real_of_int n * (2 powi (k - 52) * 2 ^ j)"
    by simp
  finally show ?thesis
    by (simp only: inv mult_1_right)
qed

lemma binary64_numeral:
  "\<bar>numeral w :: int\<bar> < 2 ^ 53 \<Longrightarrow> binary64 (numeral w) = numeral w"
  using binary64_of_int[of "numeral w"] by simp

lemma binary64_powers_of_ten:
  "binary64 (10 ^ 2) = 100" "binary64 (10 ^ 5) = 100000"
  by (simp_all add: binary64_numeral)

text \<open>
  The values met below. The literal \<^verbatim>\<open>0.1\<close> is
  \<open>3602879701896397 / 2\<^sup>5\<^sup>5\<close> (0x3FB999999999999A), slightly above one tenth.
\<close>

lemma binary64_tenth: "binary64 (1 / 10) = 3602879701896397 / 2 ^ 55"
  using binary64_at[of "- 4" "1 / 10"]
  by (simp add: power_int_minus roundTiesToEven_def)

text \<open>
  The spread multipliers of the default configuration, \<^verbatim>\<open>10 / 10000\<close> in
  normal mode and \<^verbatim>\<open>5 / 10000\<close> in close mode, and one minus and one plus
  each of them.
\<close>

lemma binary64_thousandth: "binary64 (10 / 10000) = 1152921504606847 / 2 ^ 60"
  using binary64_at[of "- 10" "10 / 10000"]
  by (simp add: power_int_minus roundTiesToEven_def)

lemma binary64_one_minus: "binary64 (1 - 1152921504606847 / 2 ^ 60) = 8998192055486251 / 2 ^ 53"
  using binary64_at[of "- 1" "1 - 1152921504606847 / 2 ^ 60"]
  by (simp add: power_int_minus roundTiesToEven_def)

lemma binary64_one_plus: "binary64 (1 + 1152921504606847 / 2 ^ 60) = 2254051613498933 / 2 ^ 51"
  using binary64_at[of 0 "1 + 1152921504606847 / 2 ^ 60"]
  by (simp add: power_int_minus roundTiesToEven_def)

lemma binary64_half_thousandth: "binary64 (5 / 10000) = 1152921504606847 / 2 ^ 61"
  using binary64_at[of "- 11" "5 / 10000"]
  by (simp add: power_int_minus roundTiesToEven_def)

lemma binary64_one_minus_half:
  "binary64 (1 - 1152921504606847 / 2 ^ 61) = 4501347827556811 / 2 ^ 52"
  using binary64_at[of "- 1" "1 - 1152921504606847 / 2 ^ 61"]
  by (simp add: power_int_minus roundTiesToEven_def)

lemma binary64_one_plus_half: "binary64 (1 + 1152921504606847 / 2 ^ 61) = 4505851427184181 / 2 ^ 52"
  using binary64_at[of 0 "1 + 1152921504606847 / 2 ^ 61"]
  by (simp add: power_int_minus roundTiesToEven_def)

text \<open>
  The raw bid of the default configuration at the fair price 26700,
  \<^verbatim>\<open>26700 * 0.999\<close>. The result is the binary64 value of the decimal 26673.3.
\<close>

lemma binary64_rawBid: "binary64 (26700 * (8998192055486251 / 2 ^ 53)) = 7331900875289395 / 2 ^ 38"
  using binary64_at[of 14 "26700 * (8998192055486251 / 2 ^ 53)"]
  by (simp add: power_int_minus roundTiesToEven_def)

lemma binary64_bid: "binary64 (266733 / 10) = 7331900875289395 / 2 ^ 38"
  using binary64_at[of 14 "266733 / 10"]
  by (simp add: power_int_minus roundTiesToEven_def)

text \<open>
  Rounding that bid down to the tick: the quotient rounds to an integer, and the product of
  that integer and the tick rounds to the binary64 value next above the bid.
\<close>

lemma binary64_bid_quotient:
  "binary64 ((7331900875289395 / 2 ^ 38) / (3602879701896397 / 2 ^ 55)) = 266733"
  using binary64_at[of 18 "(7331900875289395 / 2 ^ 38) / (3602879701896397 / 2 ^ 55)"]
  by (simp add: power_int_minus roundTiesToEven_def)

lemma binary64_bid_product:
  "binary64 (266733 * (3602879701896397 / 2 ^ 55)) = 7331900875289396 / 2 ^ 38"
  using binary64_at[of 14 "266733 * (3602879701896397 / 2 ^ 55)"]
  by (simp add: power_int_minus roundTiesToEven_def)

text \<open>
  Rounding the price \<open>8976962684977153 / 2\<^sup>3\<^sup>6\<close>, the binary64 value next above
  130632, up to the tick.
\<close>

lemma binary64_ask_quotient:
  "binary64 ((8976962684977153 / 2 ^ 36) / (3602879701896397 / 2 ^ 55)) = 1306320"
  using binary64_at[of 20 "(8976962684977153 / 2 ^ 36) / (3602879701896397 / 2 ^ 55)"]
  by (simp add: power_int_minus roundTiesToEven_def)

lemma binary64_ask_product:
  "binary64 (1306320 * (3602879701896397 / 2 ^ 55)) = 130632"
  using binary64_at[of 16 "1306320 * (3602879701896397 / 2 ^ 55)"]
  by (simp add: power_int_minus roundTiesToEven_def)

text \<open>
  The quote of the default configuration at the fair price 50000 in normal mode: the raw
  bid and ask, and the quotients and products of their rounding to the tick. The raw ask is
  50049.99999999999, not 50050.
\<close>

lemma binary64_normal_rawBid: "binary64 (50000 * (8998192055486251 / 2 ^ 53)) = 49950"
  using binary64_at[of 15 "50000 * (8998192055486251 / 2 ^ 53)"]
  by (simp add: power_int_minus roundTiesToEven_def)

lemma binary64_normal_rawAsk:
  "binary64 (50000 * (2254051613498933 / 2 ^ 51)) = 6878819621273599 / 2 ^ 37"
  using binary64_at[of 15 "50000 * (2254051613498933 / 2 ^ 51)"]
  by (simp add: power_int_minus roundTiesToEven_def)

lemma binary64_normal_bid_quotient: "binary64 (49950 / (3602879701896397 / 2 ^ 55)) = 499500"
  using binary64_at[of 18 "49950 / (3602879701896397 / 2 ^ 55)"]
  by (simp add: power_int_minus roundTiesToEven_def)

lemma binary64_normal_bid_product: "binary64 (499500 * (3602879701896397 / 2 ^ 55)) = 49950"
  using binary64_at[of 15 "499500 * (3602879701896397 / 2 ^ 55)"]
  by (simp add: power_int_minus roundTiesToEven_def)

lemma binary64_normal_ask_quotient:
  "binary64 ((6878819621273599 / 2 ^ 37) / (3602879701896397 / 2 ^ 55)) = 4299262263295999 / 2 ^ 33"
  using binary64_at[of 18 "(6878819621273599 / 2 ^ 37) / (3602879701896397 / 2 ^ 55)"]
  by (simp add: power_int_minus roundTiesToEven_def)

lemma binary64_normal_ask_product: "binary64 (500500 * (3602879701896397 / 2 ^ 55)) = 50050"
  using binary64_at[of 15 "500500 * (3602879701896397 / 2 ^ 55)"]
  by (simp add: power_int_minus roundTiesToEven_def)

text \<open>
  The same in close mode, where every step is exact.
\<close>

lemma binary64_close_rawBid: "binary64 (50000 * (4501347827556811 / 2 ^ 52)) = 49975"
  using binary64_at[of 15 "50000 * (4501347827556811 / 2 ^ 52)"]
  by (simp add: power_int_minus roundTiesToEven_def)

lemma binary64_close_rawAsk: "binary64 (50000 * (4505851427184181 / 2 ^ 52)) = 50025"
  using binary64_at[of 15 "50000 * (4505851427184181 / 2 ^ 52)"]
  by (simp add: power_int_minus roundTiesToEven_def)

lemma binary64_close_bid_quotient: "binary64 (49975 / (3602879701896397 / 2 ^ 55)) = 499750"
  using binary64_at[of 18 "49975 / (3602879701896397 / 2 ^ 55)"]
  by (simp add: power_int_minus roundTiesToEven_def)

lemma binary64_close_bid_product: "binary64 (499750 * (3602879701896397 / 2 ^ 55)) = 49975"
  using binary64_at[of 15 "499750 * (3602879701896397 / 2 ^ 55)"]
  by (simp add: power_int_minus roundTiesToEven_def)

lemma binary64_close_ask_quotient: "binary64 (50025 / (3602879701896397 / 2 ^ 55)) = 500250"
  using binary64_at[of 18 "50025 / (3602879701896397 / 2 ^ 55)"]
  by (simp add: power_int_minus roundTiesToEven_def)

lemma binary64_close_ask_product: "binary64 (500250 * (3602879701896397 / 2 ^ 55)) = 50025"
  using binary64_at[of 15 "500250 * (3602879701896397 / 2 ^ 55)"]
  by (simp add: power_int_minus roundTiesToEven_def)

text \<open>
  The base size \<^verbatim>\<open>100 / 50000\<close> is the binary64 value of the decimal 0.002;
  times \<open>10\<^sup>5\<close> it rounds to 200, times \<open>10\<^sup>2\<close> to the binary64 value of 0.2.
\<close>

lemma binary64_baseSize: "binary64 (100 / 50000) = 1152921504606847 / 2 ^ 59"
  using binary64_at[of "- 9" "100 / 50000"]
  by (simp add: power_int_minus roundTiesToEven_def)

lemma binary64_size_product5: "binary64 ((1152921504606847 / 2 ^ 59) * 100000) = 200"
  using binary64_at[of 7 "(1152921504606847 / 2 ^ 59) * 100000"]
  by (simp add: power_int_minus roundTiesToEven_def)

lemma binary64_size_quotient5: "binary64 (200 / 100000) = 1152921504606847 / 2 ^ 59"
  using binary64_at[of "- 9" "200 / 100000"]
  by (simp add: power_int_minus roundTiesToEven_def)

lemma binary64_size_product2:
  "binary64 ((1152921504606847 / 2 ^ 59) * 100) = 3602879701896397 / 2 ^ 54"
  using binary64_at[of "- 3" "(1152921504606847 / 2 ^ 59) * 100"]
  by (simp add: power_int_minus roundTiesToEven_def)

text \<open>
  The sum of the binary64 values of 0.01 and 0.02 lies half way between two binary64
  values and rounds to the even one, the binary64 value of 0.03; the exact sum is larger
  by \<open>2\<^sup>-\<^sup>5\<^sup>9\<close>.
\<close>

lemma binary64_cents_sum:
  "binary64 (5764607523034235 / 2 ^ 59 + 5764607523034235 / 2 ^ 58) = 1080863910568919 / 2 ^ 55"
  using binary64_at[of "- 6" "5764607523034235 / 2 ^ 59 + 5764607523034235 / 2 ^ 58"]
  by (simp add: power_int_minus roundTiesToEven_def)

section \<open>Properties of the list operations\<close>

lemma findIndex_takeWhile:
  "findIndex P xs = (if \<exists>x\<in>set xs. P x then int (length (takeWhile (\<lambda>x. \<not> P x) xs)) else - 1)"
  by (induction xs) (auto simp: Let_def)

lemma findIndex_first:
  assumes "i < length xs" and "P (xs ! i)" and "\<forall>j<i. \<not> P (xs ! j)"
  shows "findIndex P xs = int i"
proof -
  have "takeWhile (\<lambda>x. \<not> P x) xs = take i xs"
    using assms by (intro takeWhile_eq_take_P_nth) auto
  moreover have "\<exists>x\<in>set xs. P x"
    using assms(1,2) nth_mem by blast
  ultimately show ?thesis
    using assms(1) by (simp add: findIndex_takeWhile)
qed

lemma findIndex_none: "\<forall>x\<in>set xs. \<not> P x \<Longrightarrow> findIndex P xs = - 1"
  by (simp add: findIndex_takeWhile)

lemma findIndex_split:
  assumes "\<exists>x\<in>set xs. P x"
  shows "take (nat (findIndex P xs)) xs = takeWhile (\<lambda>x. \<not> P x) xs"
    and "drop (nat (findIndex P xs)) xs = dropWhile (\<lambda>x. \<not> P x) xs"
  using assms
  by (simp_all add: findIndex_takeWhile takeWhile_eq_take[symmetric] dropWhile_eq_drop[symmetric])

lemma set_takeWhile_dropWhile:
  "set (takeWhile P ys) \<union> set (dropWhile P ys) = set ys"
  by (metis set_append takeWhile_dropWhile_id)

lemma first_index_exists:
  assumes "x \<in> fst ` set xs"
  obtains i where "i < length xs" "fst (xs ! i) = x" "\<forall>j<i. fst (xs ! j) \<noteq> x"
proof -
  let ?Q = "\<lambda>l. fst l \<noteq> x"
  let ?i = "length (takeWhile ?Q xs)"
  have "takeWhile ?Q xs \<noteq> xs"
    using assms by (auto simp: takeWhile_eq_all_conv)
  then have "?i \<noteq> length xs"
    by (metis takeWhile_eq_take take_all order_refl)
  then have lt: "?i < length xs"
    using length_takeWhile_le[of ?Q xs] by simp
  have "\<not> ?Q (xs ! ?i)"
    using lt by (rule nth_length_takeWhile)
  moreover have "\<forall>j<?i. fst (xs ! j) \<noteq> x"
  proof (intro allI impI)
    fix j assume j: "j < ?i"
    then have "takeWhile ?Q xs ! j \<in> set (takeWhile ?Q xs)"
      by (rule nth_mem)
    then have "?Q (takeWhile ?Q xs ! j)"
      by (rule set_takeWhileD[THEN conjunct2])
    then show "fst (xs ! j) \<noteq> x"
      using j by (simp add: takeWhile_nth)
  qed
  ultimately show ?thesis
    using lt that by blast
qed

lemma sorted_wrt_remove_nth:
  assumes "sorted_wrt R xs"
  shows "sorted_wrt R (take i xs @ drop (Suc i) xs)"
proof (cases "i < length xs")
  case True
  then have "xs = take i xs @ xs ! i # drop (Suc i) xs"
    by (rule id_take_nth_drop)
  then have "sorted_wrt R (take i xs @ xs ! i # drop (Suc i) xs)"
    using assms by simp
  then show ?thesis
    by (simp add: sorted_wrt_append)
next
  case False
  then show ?thesis using assms by simp
qed

lemma sorted_wrt_insert_before:
  fixes R :: "'a \<Rightarrow> 'a \<Rightarrow> bool" and xs :: "('a \<times> 'b) list"
  assumes tr: "\<And>a b c. R a b \<Longrightarrow> R b c \<Longrightarrow> R a c"
    and tot: "\<And>a b. a \<noteq> b \<Longrightarrow> R a b \<or> R b a"
    and "sorted_wrt R (map fst xs)" and "x \<notin> fst ` set xs"
  shows "sorted_wrt R (map fst (takeWhile (\<lambda>l. \<not> R x (fst l)) xs
                                @ (x, d) # dropWhile (\<lambda>l. \<not> R x (fst l)) xs))"
  using assms(3,4)
proof (induction xs)
  case Nil
  then show ?case by simp
next
  case (Cons y ys)
  let ?K = "\<lambda>l. \<not> R x (fst l)"
  let ?ins = "takeWhile ?K ys @ (x, d) # dropWhile ?K ys"
  have ne: "fst y \<noteq> x" using Cons.prems(2) by auto
  have after: "\<forall>l\<in>set ys. R (fst y) (fst l)" using Cons.prems(1) by simp
  have IH: "sorted_wrt R (map fst ?ins)"
    using Cons by simp
  show ?case
  proof (cases "R x (fst y)")
    case True
    then have "\<forall>l\<in>set ys. R x (fst l)" using after tr by blast
    then show ?thesis using True Cons.prems(1) by simp
  next
    case False
    then have xp: "R (fst y) x" using ne tot by blast
    have "fst ` set ?ins = insert x (fst ` set ys)"
      using set_takeWhile_dropWhile[of ?K ys] by (simp add: image_Un[symmetric])
    then have "\<forall>v\<in>set (map fst ?ins). R (fst y) v"
      using xp after by (simp only: set_map) auto
    then have "sorted_wrt R (fst y # map fst ?ins)"
      using IH by simp
    then show ?thesis
      using False by simp
  qed
qed

section \<open>Properties of one price-level delta\<close>

lemma applyPriceLevelDelta_existing:
  assumes "i < length levels" and "fst (levels ! i) = p"
    and "\<forall>j<i. fst (levels ! j) \<noteq> p"
  shows "applyPriceLevelDelta levels p d isBid =
           (if binary64 (snd (levels ! i) + d) \<le> 0 then take i levels @ drop (Suc i) levels
            else levels[i := (p, binary64 (snd (levels ! i) + d))])"
proof -
  have "findIndex (\<lambda>(p', a). p' = p) levels = int i"
    using assms by (intro findIndex_first) (auto simp: case_prod_beta)
  then show ?thesis
    using assms(2) by (simp add: applyPriceLevelDelta_def Let_def)
qed

lemma applyPriceLevelDelta_absent:
  assumes "p \<notin> fst ` set levels"
  shows "applyPriceLevelDelta levels p d isBid =
           (if d > 0 then
              takeWhile (\<lambda>l. \<not> (if isBid then fst l < p else fst l > p)) levels
              @ (p, d) # dropWhile (\<lambda>l. \<not> (if isBid then fst l < p else fst l > p)) levels
            else levels)"
proof -
  let ?W = "\<lambda>(p', a). if isBid then p' < p else p' > (p::real)"
  let ?K = "\<lambda>l. \<not> (if isBid then fst l < p else fst l > p)"
  have none: "findIndex (\<lambda>(p', a). p' = p) levels = - 1"
    using assms by (intro findIndex_none) force
  have K: "(\<lambda>x. \<not> ?W x) = ?K"
    by (auto simp: fun_eq_iff)
  show ?thesis
  proof (cases "\<exists>x\<in>set levels. ?W x")
    case True
    then have "0 \<le> findIndex ?W levels"
      by (simp add: findIndex_takeWhile)
    moreover have "take (nat (findIndex ?W levels)) levels = takeWhile ?K levels"
      "drop (nat (findIndex ?W levels)) levels = dropWhile ?K levels"
      using findIndex_split[OF True] by (simp_all only: K)
    ultimately show ?thesis
      using none by (simp add: applyPriceLevelDelta_def Let_def)
  next
    case False
    then have "findIndex ?W levels = - 1"
      by (intro findIndex_none) blast
    moreover have "\<forall>x\<in>set levels. ?K x"
      using False by auto
    then have tw: "takeWhile ?K levels = levels" and dw: "dropWhile ?K levels = []"
      by simp_all
    ultimately show ?thesis
      using none by (simp add: applyPriceLevelDelta_def Let_def tw dw)
  qed
qed

lemma sideSorted_applyPriceLevelDelta:
  assumes "sideSorted isBid levels"
  shows "sideSorted isBid (applyPriceLevelDelta levels p d isBid)"
proof (cases "p \<in> fst ` set levels")
  case True
  then obtain i where i: "i < length levels" "fst (levels ! i) = p"
    "\<forall>j<i. fst (levels ! j) \<noteq> p"
    by (rule first_index_exists)
  have upd: "map fst (levels[i := (p, v)]) = map fst levels" for v
    using i(1,2) by (simp add: map_update list_update_same_conv)
  have del: "map fst (take i levels) @ map fst (drop (Suc i) levels)
               = take i (map fst levels) @ drop (Suc i) (map fst levels)"
    by (simp add: take_map drop_map)
  show ?thesis
    using assms
    by (simp add: applyPriceLevelDelta_existing[OF i] sideSorted_def upd del sorted_wrt_remove_nth)
next
  case False
  show ?thesis
  proof (cases isBid)
    case True
    have "sorted_wrt (>) (map fst (takeWhile (\<lambda>l. \<not> p > fst l) levels
                                @ (p, d) # dropWhile (\<lambda>l. \<not> p > fst l) levels))"
      using assms True \<open>p \<notin> fst ` set levels\<close>
      by (intro sorted_wrt_insert_before) (auto simp: sideSorted_def)
    then show ?thesis
      using assms True by (simp add: applyPriceLevelDelta_absent[OF False] sideSorted_def)
  next
    case notBid: False
    have "sorted_wrt (<) (map fst (takeWhile (\<lambda>l. \<not> p < fst l) levels
                                @ (p, d) # dropWhile (\<lambda>l. \<not> p < fst l) levels))"
      using assms notBid \<open>p \<notin> fst ` set levels\<close>
      by (intro sorted_wrt_insert_before) (auto simp: sideSorted_def)
    then show ?thesis
      using assms notBid by (simp add: applyPriceLevelDelta_absent[OF False] sideSorted_def)
  qed
qed

lemma sideSorted_applyLevelDeltas:
  "sideSorted isBid levels \<Longrightarrow> sideSorted isBid (applyLevelDeltas levels ds isBid)"
  by (induction levels ds isBid rule: applyLevelDeltas.induct)
     (simp_all add: sideSorted_applyPriceLevelDelta)

lemma applyLevelDeltas_append:
  "applyLevelDeltas levels (pre @ post) isBid
     = applyLevelDeltas (applyLevelDeltas levels pre isBid) post isBid"
  by (induction levels pre isBid rule: applyLevelDeltas.induct) simp_all

lemma sideSorted_distinct:
  assumes "sideSorted isBid levels"
  shows "distinct (map fst levels)"
proof (cases isBid)
  case True
  then have "sorted_wrt (<) (rev (map fst levels))"
    using assms by (simp add: sideSorted_def sorted_wrt_rev)
  then have "distinct (rev (map fst levels))"
    by (simp only: strict_sorted_iff)
  then show ?thesis by simp
next
  case False
  then have "sorted_wrt (<) (map fst levels)"
    using assms by (simp add: sideSorted_def)
  then show ?thesis
    by (simp only: strict_sorted_iff)
qed

lemma applyDelta_fresh:
  assumes "localOrderbooks s chId = Some book"
    and "nonce book = None \<or> the (nonce book) < d_nonce delta"
  shows "localOrderbooks (applyDelta s chId delta) chId =
           Some (book \<lparr> bids := applyLevelDeltas (bids book) (d_bids delta) True,
                        asks := applyLevelDeltas (asks book) (d_asks delta) False,
                        timestamp := d_timestamp delta,
                        nonce := Some (d_nonce delta) \<rparr>)"
  using assms by (auto simp: applyDelta_def Let_def)

text \<open>A delta that has just been applied is stale: its nonce is the nonce of the book.\<close>

lemma applyDelta_twice:
  "applyDelta (applyDelta s chId delta) chId delta = applyDelta s chId delta"
proof (cases "localOrderbooks s chId")
  case None
  then show ?thesis by (simp add: applyDelta_def)
next
  case (Some book)
  show ?thesis
  proof (cases "nonce book \<noteq> None \<and> d_nonce delta \<le> the (nonce book)")
    case True
    then have "applyDelta s chId delta = s"
      using Some by (simp add: applyDelta_def)
    then show ?thesis by simp
  next
    case False
    then have "nonce book = None \<or> the (nonce book) < d_nonce delta" by auto
    then have new: "localOrderbooks (applyDelta s chId delta) chId =
           Some (book \<lparr> bids := applyLevelDeltas (bids book) (d_bids delta) True,
                        asks := applyLevelDeltas (asks book) (d_asks delta) False,
                        timestamp := d_timestamp delta,
                        nonce := Some (d_nonce delta) \<rparr>)"
      using Some by (rule applyDelta_fresh[rotated])
    show ?thesis
      using new by (simp add: applyDelta_def[of "applyDelta s chId delta"])
  qed
qed

lemma applyDelta_keeps_sorted:
  assumes "localOrderbooks s chId = Some book" and "bookSorted book"
  shows "\<exists>book'. localOrderbooks (applyDelta s chId delta) chId = Some book' \<and> bookSorted book'"
proof (cases "nonce book \<noteq> None \<and> d_nonce delta \<le> the (nonce book)")
  case True
  then have "applyDelta s chId delta = s"
    using assms(1) by (simp add: applyDelta_def)
  then show ?thesis using assms by simp
next
  case False
  then have "nonce book = None \<or> the (nonce book) < d_nonce delta" by auto
  then show ?thesis
    using assms(2) applyDelta_fresh[OF assms(1)]
    by (simp add: bookSorted_def sideSorted_applyLevelDeltas)
qed

lemma applyDeltas_keep_sorted:
  assumes "localOrderbooks s chId = Some book" and "bookSorted book"
  shows "\<exists>book'. localOrderbooks (applyDeltas s chId ds) chId = Some book' \<and> bookSorted book'"
  using assms
proof (induction ds arbitrary: s book)
  case Nil
  then show ?case by simp
next
  case (Cons delta ds)
  obtain b1 where "localOrderbooks (applyDelta s chId delta) chId = Some b1" "bookSorted b1"
    using applyDelta_keeps_sorted[OF Cons.prems] by blast
  then show ?case
    using Cons.IH by simp
qed

section \<open>Properties of the fair price\<close>

lemma updateEMA_fixed [simp]:
  "alpha (updateEMA s p ts) = alpha s"
  "minPrices (updateEMA s p ts) = minPrices s"
  "warmupMs (updateEMA s p ts) = warmupMs s"
  "startTime (updateEMA s p ts) = startTime s"
  "priceCount (updateEMA s p ts) = Suc (priceCount s)"
  "ema (updateEMA s p ts) \<noteq> None"
  by (simp_all add: updateEMA_def split: option.split)

lemma feedTicks_fixed [simp]:
  "alpha (feedTicks s ticks) = alpha s"
  "minPrices (feedTicks s ticks) = minPrices s"
  "warmupMs (feedTicks s ticks) = warmupMs s"
  "startTime (feedTicks s ticks) = startTime s"
  by (induction s ticks rule: feedTicks.induct) simp_all

lemma feedTicks_priceCount [simp]:
  "priceCount (feedTicks s ticks) = priceCount s + length ticks"
  by (induction s ticks rule: feedTicks.induct) simp_all

lemma feedTicks_ema_kept:
  "ema s \<noteq> None \<Longrightarrow> ema (feedTicks s ticks) \<noteq> None"
  by (induction s ticks rule: feedTicks.induct) simp_all

lemma feedTicks_ema_set:
  assumes "ticks \<noteq> []"
  shows "ema (feedTicks s ticks) \<noteq> None"
proof -
  obtain p ts rest where "ticks = (p, ts) # rest"
    using assms by (cases ticks) auto
  moreover have "ema (feedTicks (updateEMA s p ts) rest) \<noteq> None"
    by (rule feedTicks_ema_kept) (rule updateEMA_fixed(6))
  ultimately show ?thesis by simp
qed

section \<open>Properties of the quoter\<close>

text \<open>
  In exact arithmetic rounding down never gives more than the price and rounding up never
  gives less: the tick is positive, and \<open>\<lfloor>p / t\<rfloor> \<le> p / t \<le> \<lceil>p / t\<rceil>\<close>.
\<close>

lemma tick_rounding_exact:
  fixes p t :: real
  assumes "0 < t"
  shows "of_int \<lfloor>p / t\<rfloor> * t \<le> p \<and> p \<le> of_int \<lceil>p / t\<rceil> * t"
proof -
  have "of_int \<lfloor>p / t\<rfloor> * t \<le> p / t * t" and "p / t * t \<le> of_int \<lceil>p / t\<rceil> * t"
    using assms by (intro mult_right_mono; simp)+
  then show ?thesis
    using assms by simp
qed

text \<open>\<^verbatim>\<open>roundToTick\<close> of a BTC quoter, with the tick evaluated.\<close>

lemma roundToTick_binary64_BTC:
  assumes "cfg_symbol (config q) = ''BTC''"
  shows "roundToTick_binary64 q p down
           = binary64 (of_int \<lfloor>binary64 (p / (3602879701896397 / 2 ^ 55))\<rfloor> * (3602879701896397 / 2 ^ 55))"
    and "roundToTick_binary64 q p up
           = binary64 (of_int \<lceil>binary64 (p / (3602879701896397 / 2 ^ 55))\<rceil> * (3602879701896397 / 2 ^ 55))"
  using assms by (simp_all only: roundToTick_binary64_def Let_def binary64_tenth) simp_all

text \<open>
  The raw prices at the fair price 50000 and their rounding to the tick of a BTC quoter, in
  normal mode (10 basis points) and in close mode (5 basis points).
\<close>

lemma rawPrices_normal:
  "binary64 (50000 * binary64 (1 - binary64 (10 / 10000))) = 49950"
  "binary64 (50000 * binary64 (1 + binary64 (10 / 10000))) = 6878819621273599 / 2 ^ 37"
  by (simp_all only: binary64_thousandth binary64_one_minus binary64_one_plus
      binary64_normal_rawBid binary64_normal_rawAsk)

lemma rawPrices_close:
  "binary64 (50000 * binary64 (1 - binary64 (5 / 10000))) = 49975"
  "binary64 (50000 * binary64 (1 + binary64 (5 / 10000))) = 50025"
  by (simp_all only: binary64_half_thousandth binary64_one_minus_half binary64_one_plus_half
      binary64_close_rawBid binary64_close_rawAsk)

lemma roundToTick_binary64_normal:
  assumes "cfg_symbol (config q) = ''BTC''"
  shows "roundToTick_binary64 q 49950 down = 49950"
    and "roundToTick_binary64 q (6878819621273599 / 2 ^ 37) up = 50050"
proof -
  have "roundToTick_binary64 q 49950 down
          = binary64 (of_int \<lfloor>binary64 (49950 / (3602879701896397 / 2 ^ 55))\<rfloor>
                       * (3602879701896397 / 2 ^ 55))"
    by (rule roundToTick_binary64_BTC(1)[OF assms])
  also have "\<dots> = binary64 (499500 * (3602879701896397 / 2 ^ 55))"
    by (simp only: binary64_normal_bid_quotient) simp
  also have "\<dots> = 49950"
    by (rule binary64_normal_bid_product)
  finally show "roundToTick_binary64 q 49950 down = 49950" .
  have "roundToTick_binary64 q (6878819621273599 / 2 ^ 37) up
          = binary64 (of_int \<lceil>binary64 ((6878819621273599 / 2 ^ 37) / (3602879701896397 / 2 ^ 55))\<rceil>
                       * (3602879701896397 / 2 ^ 55))"
    by (rule roundToTick_binary64_BTC(2)[OF assms])
  also have "\<dots> = binary64 (500500 * (3602879701896397 / 2 ^ 55))"
    by (simp only: binary64_normal_ask_quotient) simp
  also have "\<dots> = 50050"
    by (rule binary64_normal_ask_product)
  finally show "roundToTick_binary64 q (6878819621273599 / 2 ^ 37) up = 50050" .
qed

lemma roundToTick_binary64_close:
  assumes "cfg_symbol (config q) = ''BTC''"
  shows "roundToTick_binary64 q 49975 down = 49975"
    and "roundToTick_binary64 q 50025 up = 50025"
proof -
  have "roundToTick_binary64 q 49975 down
          = binary64 (of_int \<lfloor>binary64 (49975 / (3602879701896397 / 2 ^ 55))\<rfloor>
                       * (3602879701896397 / 2 ^ 55))"
    by (rule roundToTick_binary64_BTC(1)[OF assms])
  also have "\<dots> = binary64 (499750 * (3602879701896397 / 2 ^ 55))"
    by (simp only: binary64_close_bid_quotient) simp
  also have "\<dots> = 49975"
    by (rule binary64_close_bid_product)
  finally show "roundToTick_binary64 q 49975 down = 49975" .
  have "roundToTick_binary64 q 50025 up
          = binary64 (of_int \<lceil>binary64 (50025 / (3602879701896397 / 2 ^ 55))\<rceil>
                       * (3602879701896397 / 2 ^ 55))"
    by (rule roundToTick_binary64_BTC(2)[OF assms])
  also have "\<dots> = binary64 (500250 * (3602879701896397 / 2 ^ 55))"
    by (simp only: binary64_close_ask_quotient) simp
  also have "\<dots> = 50025"
    by (rule binary64_close_ask_product)
  finally show "roundToTick_binary64 q 50025 up = 50025" .
qed

text \<open>
  \<^verbatim>\<open>roundSize\<close> with a market: 0 stays 0, a size that is not negative gives
  one that is not negative, and the result is positive exactly when the rounded product of
  the size and the multiplier reaches 1.
\<close>

lemma roundSize_zero [simp]: "roundSize q 0 = 0"
  by (simp add: roundSize_def Let_def split: option.split)

lemma roundSize_market:
  assumes "market q = Some m" and "sizePrecision m = n"
  shows "roundSize q sz
           = binary64 (of_int \<lfloor>binary64 (sz * binary64 (10 ^ n))\<rfloor> / binary64 (10 ^ n))"
  using assms by (simp add: roundSize_def Let_def)

lemma roundSize_nonneg:
  assumes "0 \<le> sz"
  shows "0 \<le> roundSize q sz"
proof (cases "market q")
  case None
  then show ?thesis using assms by (simp add: roundSize_def)
next
  case (Some m)
  let ?mult = "binary64 (10 ^ sizePrecision m)"
  have mult: "0 < ?mult"
    by (intro binary64_pos) simp
  then have "0 \<le> binary64 (sz * ?mult)"
    using assms by (intro binary64_nonneg) simp
  then have "0 \<le> real_of_int \<lfloor>binary64 (sz * ?mult)\<rfloor>"
    by simp
  then have "0 \<le> real_of_int \<lfloor>binary64 (sz * ?mult)\<rfloor> / ?mult"
    using mult by simp
  then show ?thesis
    by (simp only: roundSize_market[OF Some refl] binary64_nonneg)
qed

lemma roundSize_pos_iff:
  "0 < roundSize q sz \<longleftrightarrow>
     (case market q of None \<Rightarrow> 0 < sz
      | Some m \<Rightarrow> 1 \<le> binary64 (sz * binary64 (10 ^ sizePrecision m)))"
proof (cases "market q")
  case None
  then show ?thesis by (simp add: roundSize_def)
next
  case (Some m)
  let ?mult = "binary64 (10 ^ sizePrecision m)"
  let ?y = "binary64 (sz * ?mult)"
  have mult: "0 < ?mult"
    by (intro binary64_pos) simp
  have "0 < roundSize q sz \<longleftrightarrow> 0 < real_of_int \<lfloor>?y\<rfloor> / ?mult"
    by (simp only: roundSize_market[OF Some refl] binary64_pos_iff)
  also have "\<dots> \<longleftrightarrow> 0 < \<lfloor>?y\<rfloor>"
    using mult by (simp add: zero_less_divide_iff)
  also have "\<dots> \<longleftrightarrow> 1 \<le> ?y"
    by (simp add: less_floor_iff)
  finally show ?thesis
    using Some by simp
qed

text \<open>The base size 0.002 at two and at five decimals of size.\<close>

lemma roundSize_baseSize:
  assumes "market q = Some m"
  shows "sizePrecision m = 2 \<Longrightarrow> roundSize q (1152921504606847 / 2 ^ 59) = 0"
    and "sizePrecision m = 5 \<Longrightarrow> roundSize q (1152921504606847 / 2 ^ 59) = 1152921504606847 / 2 ^ 59"
proof -
  assume two: "sizePrecision m = 2"
  have "roundSize q (1152921504606847 / 2 ^ 59)
          = binary64 (of_int \<lfloor>binary64 ((1152921504606847 / 2 ^ 59) * binary64 (10 ^ 2))\<rfloor>
                       / binary64 (10 ^ 2))"
    by (rule roundSize_market[OF assms two])
  also have "\<dots> = binary64 (of_int \<lfloor>3602879701896397 / 2 ^ 54 :: real\<rfloor> / 100)"
    by (simp only: binary64_powers_of_ten binary64_size_product2)
  also have "\<dots> = 0"
    by simp
  finally show "roundSize q (1152921504606847 / 2 ^ 59) = 0" .
next
  assume five: "sizePrecision m = 5"
  have "roundSize q (1152921504606847 / 2 ^ 59)
          = binary64 (of_int \<lfloor>binary64 ((1152921504606847 / 2 ^ 59) * binary64 (10 ^ 5))\<rfloor>
                       / binary64 (10 ^ 5))"
    by (rule roundSize_market[OF assms five])
  also have "\<dots> = binary64 (of_int \<lfloor>200 :: real\<rfloor> / 100000)"
    by (simp only: binary64_powers_of_ten binary64_size_product5)
  also have "\<dots> = binary64 (200 / 100000)"
    by simp
  also have "\<dots> = 1152921504606847 / 2 ^ 59"
    by (rule binary64_size_quotient5)
  finally show "roundSize q (1152921504606847 / 2 ^ 59) = 1152921504606847 / 2 ^ 59" .
qed

text \<open>
  The two prices of \<^verbatim>\<open>generateQuotes\<close> are those of
  \<open>generateQuotes_prices_binary64\<close>.
\<close>

lemma generateQuotes_prices:
  "(bidPrice (generateQuotes q fp pn), askPrice (generateQuotes q fp pn))
     = generateQuotes_prices_binary64 q fp pn"
  by (simp add: generateQuotes_def generateQuotes_prices_binary64_def Let_def)

section \<open>Claims on the orderbook\<close>

text \<open>
  C1. A delta whose nonce is less than or equal to the nonce the local book holds leaves the
  subscription, and so the book (bids, asks, timestamp, nonce), as it was. In consequence
  applying any delta twice gives what applying it once gives: after the first application
  the nonce of the book is the nonce of the delta.
\<close>

theorem applyDelta_stale_unchanged:
  "(localOrderbooks s chId = Some book \<and> nonce book = Some n \<and> d_nonce delta \<le> n \<longrightarrow>
      applyDelta s chId delta = s \<and> localOrderbooks (applyDelta s chId delta) chId = Some book)
   \<and> applyDelta (applyDelta s chId delta) chId delta = applyDelta s chId delta"
proof -
  have "applyDelta s chId delta = s"
    if "localOrderbooks s chId = Some book \<and> nonce book = Some n \<and> d_nonce delta \<le> n"
    using that by (simp add: applyDelta_def)
  then show ?thesis
    using applyDelta_twice by auto
qed

text \<open>
  The scenario of the specification: the book \<open>bids = [[100,5]], asks = [[101,5]]\<close> that
  has taken the delta \<open>bids = [[100,-5]]\<close> with nonce 1 is handed that delta again.
\<close>

theorem applyDelta_stale_unchanged_witness:
  "applyDelta
     \<lparr> eventSources = {''BTC''},
       localOrderbooks = [''BTC'' \<mapsto>
         \<lparr> symbol = ''BTC'', bids = [], asks = [(101, 5)], timestamp = 7, nonce = Some 1 \<rparr>] \<rparr>
     ''BTC''
     \<lparr> d_bids = [(100, - 5)], d_asks = [], d_timestamp = 7, d_nonce = 1 \<rparr>
   = \<lparr> eventSources = {''BTC''},
       localOrderbooks = [''BTC'' \<mapsto>
         \<lparr> symbol = ''BTC'', bids = [], asks = [(101, 5)], timestamp = 7, nonce = Some 1 \<rparr>] \<rparr>"
proof -
  let ?book = "\<lparr> symbol = ''BTC'', bids = [], asks = [(101, 5)], timestamp = 7, nonce = Some 1 \<rparr>"
  let ?s = "\<lparr> eventSources = {''BTC''}, localOrderbooks = [''BTC'' \<mapsto> ?book] \<rparr>"
  let ?delta = "\<lparr> d_bids = [(100, - 5)], d_asks = [], d_timestamp = 7, d_nonce = 1 \<rparr>"
  have "localOrderbooks ?s ''BTC'' = Some ?book \<and> nonce ?book = Some 1 \<and> d_nonce ?delta \<le> 1"
    by simp
  then show ?thesis
    using applyDelta_stale_unchanged[of ?s "''BTC''" ?book 1 ?delta] by blast
qed

text \<open>
  C2. An accepted delta is one that finds a local book whose nonce is undefined or below
  its own. \<^verbatim>\<open>applyDelta\<close> then works through the pairs of each side in
  order. Take any pair \<open>(p, d)\<close> of a side, the pairs \<open>pre\<close> before it and
  \<open>post\<close> after it; \<open>levels\<close> is the side when the pair is reached,
  \<open>levels'\<close> the side when it has been applied, and the side of the new book is
  \<open>levels'\<close> after the remaining pairs; the other side has taken its own pairs, and the
  book has the timestamp and the nonce of the delta. If \<open>i\<close> is the first level at
  price \<open>p\<close>, its size becomes the binary64 sum of its old size and \<open>d\<close>, and
  when that sum is not positive the level is spliced out; on a side in order, where prices
  are unique, no level at \<open>p\<close> is left then. If no level is at \<open>p\<close> and
  \<open>d\<close> is positive, the level \<open>(p, d)\<close> is put between two parts of the side, at
  a place that keeps a side in order in order (descending for bids, ascending for asks). If
  no level is at \<open>p\<close> and \<open>d\<close> is not positive, the side is as it was. The book
  \<open>bids = [[100,5]], asks = [[101,5]]\<close> that takes the delta
  \<open>bids = [[100,-5]], asks = [], nonce = 1\<close> ends with no bid.
\<close>

theorem applyDelta_pairs:
  "(localOrderbooks s chId = Some book
      \<and> (nonce book = None \<or> the (nonce book) < d_nonce delta)
      \<and> sidePairs isBid delta = pre @ (p, d) # post
      \<and> levels = applyLevelDeltas (sideLevels isBid book) pre isBid
      \<and> levels' = applyPriceLevelDelta levels p d isBid
    \<longrightarrow>
      (\<exists>book'. localOrderbooks (applyDelta s chId delta) chId = Some book'
         \<and> sideLevels isBid book' = applyLevelDeltas levels' post isBid
         \<and> sideLevels (\<not> isBid) book'
              = applyLevelDeltas (sideLevels (\<not> isBid) book) (sidePairs (\<not> isBid) delta) (\<not> isBid)
         \<and> symbol book' = symbol book
         \<and> timestamp book' = d_timestamp delta
         \<and> nonce book' = Some (d_nonce delta))
      \<and> (i < length levels \<and> fst (levels ! i) = p \<and> (\<forall>j<i. fst (levels ! j) \<noteq> p) \<longrightarrow>
           levels' =
             (if binary64 (snd (levels ! i) + d) \<le> 0 then take i levels @ drop (Suc i) levels
              else levels[i := (p, binary64 (snd (levels ! i) + d))]))
      \<and> (sideSorted isBid levels \<and> (p, a) \<in> set levels \<and> binary64 (a + d) \<le> 0 \<longrightarrow>
           p \<notin> fst ` set levels')
      \<and> (p \<notin> fst ` set levels \<and> 0 < d \<longrightarrow>
           (\<exists>k\<le>length levels. levels' = take k levels @ (p, d) # drop k levels)
           \<and> (sideSorted isBid levels \<longrightarrow> sideSorted isBid levels'))
      \<and> (p \<notin> fst ` set levels \<and> d \<le> 0 \<longrightarrow> levels' = levels))
   \<and> localOrderbooks
        (applyDelta
           \<lparr> eventSources = {''BTC''},
             localOrderbooks = [''BTC'' \<mapsto>
               \<lparr> symbol = ''BTC'', bids = [(100, 5)], asks = [(101, 5)],
                 timestamp = 0, nonce = Some 0 \<rparr>] \<rparr>
           ''BTC''
           \<lparr> d_bids = [(100, - 5)], d_asks = [], d_timestamp = 1, d_nonce = 1 \<rparr>)
        ''BTC''
      = Some \<lparr> symbol = ''BTC'', bids = [], asks = [(101, 5)], timestamp = 1, nonce = Some 1 \<rparr>"
proof -
  have general:
    "(\<exists>book'. localOrderbooks (applyDelta s chId delta) chId = Some book'
         \<and> sideLevels isBid book' = applyLevelDeltas levels' post isBid
         \<and> sideLevels (\<not> isBid) book'
              = applyLevelDeltas (sideLevels (\<not> isBid) book) (sidePairs (\<not> isBid) delta) (\<not> isBid)
         \<and> symbol book' = symbol book
         \<and> timestamp book' = d_timestamp delta
         \<and> nonce book' = Some (d_nonce delta))
      \<and> (i < length levels \<and> fst (levels ! i) = p \<and> (\<forall>j<i. fst (levels ! j) \<noteq> p) \<longrightarrow>
           levels' =
             (if binary64 (snd (levels ! i) + d) \<le> 0 then take i levels @ drop (Suc i) levels
              else levels[i := (p, binary64 (snd (levels ! i) + d))]))
      \<and> (sideSorted isBid levels \<and> (p, a) \<in> set levels \<and> binary64 (a + d) \<le> 0 \<longrightarrow>
           p \<notin> fst ` set levels')
      \<and> (p \<notin> fst ` set levels \<and> 0 < d \<longrightarrow>
           (\<exists>k\<le>length levels. levels' = take k levels @ (p, d) # drop k levels)
           \<and> (sideSorted isBid levels \<longrightarrow> sideSorted isBid levels'))
      \<and> (p \<notin> fst ` set levels \<and> d \<le> 0 \<longrightarrow> levels' = levels)"
    if found: "localOrderbooks s chId = Some book"
      and fresh: "nonce book = None \<or> the (nonce book) < d_nonce delta"
      and split: "sidePairs isBid delta = pre @ (p, d) # post"
      and before: "levels = applyLevelDeltas (sideLevels isBid book) pre isBid"
      and after: "levels' = applyPriceLevelDelta levels p d isBid"
  proof (intro conjI impI)
    let ?book' = "book \<lparr> bids := applyLevelDeltas (bids book) (d_bids delta) True,
                          asks := applyLevelDeltas (asks book) (d_asks delta) False,
                          timestamp := d_timestamp delta,
                          nonce := Some (d_nonce delta) \<rparr>"
    have new: "localOrderbooks (applyDelta s chId delta) chId = Some ?book'"
      using found fresh by (rule applyDelta_fresh)
    have "applyLevelDeltas (sideLevels isBid book) (sidePairs isBid delta) isBid
            = applyLevelDeltas levels' post isBid"
      by (simp add: split before after applyLevelDeltas_append)
    then have side: "sideLevels isBid ?book' = applyLevelDeltas levels' post isBid"
      by (cases isBid) (simp_all add: sideLevels_def sidePairs_def)
    have other: "sideLevels (\<not> isBid) ?book'
            = applyLevelDeltas (sideLevels (\<not> isBid) book) (sidePairs (\<not> isBid) delta) (\<not> isBid)"
      by (cases isBid) (simp_all add: sideLevels_def sidePairs_def)
    show "\<exists>book'. localOrderbooks (applyDelta s chId delta) chId = Some book'
           \<and> sideLevels isBid book' = applyLevelDeltas levels' post isBid
           \<and> sideLevels (\<not> isBid) book'
                = applyLevelDeltas (sideLevels (\<not> isBid) book) (sidePairs (\<not> isBid) delta) (\<not> isBid)
           \<and> symbol book' = symbol book
           \<and> timestamp book' = d_timestamp delta
           \<and> nonce book' = Some (d_nonce delta)"
      using new side other by (intro exI[of _ ?book']) simp
  next
    assume "i < length levels \<and> fst (levels ! i) = p \<and> (\<forall>j<i. fst (levels ! j) \<noteq> p)"
    then show "levels' =
               (if binary64 (snd (levels ! i) + d) \<le> 0 then take i levels @ drop (Suc i) levels
                else levels[i := (p, binary64 (snd (levels ! i) + d))])"
      unfolding after by (intro applyPriceLevelDelta_existing) auto
  next
    assume g: "sideSorted isBid levels \<and> (p, a) \<in> set levels \<and> binary64 (a + d) \<le> 0"
    have "p \<in> fst ` set levels" using g by force
    then obtain i where i: "i < length levels" "fst (levels ! i) = p"
      "\<forall>j<i. fst (levels ! j) \<noteq> p"
      by (rule first_index_exists)
    have dist: "distinct (map fst levels)"
      using g sideSorted_distinct by blast
    obtain k where k: "k < length levels" "levels ! k = (p, a)"
      using g by (auto simp: in_set_conv_nth)
    have "k = i"
      using dist i(1,2) k by (metis fst_conv length_map nth_eq_iff_index_eq nth_map)
    then have res: "levels' = take i levels @ drop (Suc i) levels"
      using g k(2) by (simp add: after applyPriceLevelDelta_existing[OF i])
    have "map fst levels = take i (map fst levels) @ p # drop (Suc i) (map fst levels)"
      using i(1,2) id_take_nth_drop[of i "map fst levels"] by simp
    then have "distinct (take i (map fst levels) @ p # drop (Suc i) (map fst levels))"
      using dist by simp
    then have "p \<notin> set (take i (map fst levels) @ drop (Suc i) (map fst levels))"
      by auto
    then show "p \<notin> fst ` set levels'"
      by (simp add: res take_map drop_map image_Un)
  next
    assume g: "p \<notin> fst ` set levels \<and> 0 < d"
    let ?K = "\<lambda>l. \<not> (if isBid then fst l < p else fst l > p)"
    have "levels' = take (length (takeWhile ?K levels)) levels
                      @ (p, d) # drop (length (takeWhile ?K levels)) levels"
      using g
      by (simp add: after applyPriceLevelDelta_absent takeWhile_eq_take[symmetric]
          dropWhile_eq_drop[symmetric])
    then show "\<exists>k\<le>length levels. levels' = take k levels @ (p, d) # drop k levels"
      using length_takeWhile_le by blast
  next
    assume "sideSorted isBid levels"
    then show "sideSorted isBid levels'"
      unfolding after by (rule sideSorted_applyPriceLevelDelta)
  next
    assume "p \<notin> fst ` set levels \<and> d \<le> 0"
    then show "levels' = levels"
      by (simp add: after applyPriceLevelDelta_absent)
  qed
  have scenario: "localOrderbooks
        (applyDelta
           \<lparr> eventSources = {''BTC''},
             localOrderbooks = [''BTC'' \<mapsto>
               \<lparr> symbol = ''BTC'', bids = [(100, 5)], asks = [(101, 5)],
                 timestamp = 0, nonce = Some 0 \<rparr>] \<rparr>
           ''BTC''
           \<lparr> d_bids = [(100, - 5)], d_asks = [], d_timestamp = 1, d_nonce = 1 \<rparr>)
        ''BTC''
      = Some \<lparr> symbol = ''BTC'', bids = [], asks = [(101, 5)], timestamp = 1, nonce = Some 1 \<rparr>"
    by (simp add: applyDelta_def applyPriceLevelDelta_def)
  show ?thesis
    using general scenario by blast
qed

text \<open>
  A book with three bids and two asks takes one delta. On the bids the pair at 99 adds to
  a level, the pair at 98 is put between 99 and 97, the pair at 100 removes the best bid,
  and the pair at 96, not positive at a price without a level, is dropped. On the asks the
  level at 101 of size 0.01 takes 0.02 and then -0.03 and is removed, the sum of 0.01 and
  0.02 being 0.03 in binary64; the pair at 102 is put before 103, and the pair at 103
  removes that level.
\<close>

theorem applyDelta_pairs_witness:
  "localOrderbooks
     (applyDelta
        \<lparr> eventSources = {''BTC''},
          localOrderbooks = [''BTC'' \<mapsto>
            \<lparr> symbol = ''BTC'', bids = [(100, 5), (99, 2), (97, 1)],
              asks = [(101, 5764607523034235 / 2 ^ 59), (103, 2)],
              timestamp = 7, nonce = Some 3 \<rparr>] \<rparr>
        ''BTC''
        \<lparr> d_bids = [(99, 3), (98, 4), (100, - 5), (96, - 1)],
          d_asks = [(101, 5764607523034235 / 2 ^ 58), (101, - (1080863910568919 / 2 ^ 55)),
                    (102, 4), (103, - 2)],
          d_timestamp = 9, d_nonce = 4 \<rparr>)
     ''BTC''
   = Some \<lparr> symbol = ''BTC'', bids = [(99, 5), (98, 4), (97, 1)], asks = [(102, 4)],
            timestamp = 9, nonce = Some 4 \<rparr>"
proof -
  let ?book = "\<lparr> symbol = ''BTC'', bids = [(100, 5), (99, 2), (97, 1)],
              asks = [(101, 5764607523034235 / 2 ^ 59), (103, 2)],
              timestamp = 7, nonce = Some 3 \<rparr>"
  let ?s = "\<lparr> eventSources = {''BTC''}, localOrderbooks = [''BTC'' \<mapsto> ?book] \<rparr>"
  let ?delta = "\<lparr> d_bids = [(99, 3), (98, 4), (100, - 5), (96, - 1)],
          d_asks = [(101, 5764607523034235 / 2 ^ 58), (101, - (1080863910568919 / 2 ^ 55)),
                    (102, 4), (103, - 2)],
          d_timestamp = 9, d_nonce = 4 \<rparr>"
  have found: "localOrderbooks ?s ''BTC'' = Some ?book"
    by simp
  have fresh: "nonce ?book = None \<or> the (nonce ?book) < d_nonce ?delta"
    by simp
  have split: "sidePairs True ?delta = [(99, 3)] @ (98, 4) # [(100, - 5), (96, - 1)]"
    by (simp add: sidePairs_def)
  have before: "[(100, 5), (99, 5), (97, 1)] = applyLevelDeltas (sideLevels True ?book) [(99, 3)] True"
    by (simp add: sideLevels_def applyPriceLevelDelta_def binary64_numeral)
  have after: "[(100, 5), (99, 5), (98, 4), (97, 1)]
                 = applyPriceLevelDelta [(100, 5), (99, 5), (97, 1)] 98 4 True"
    by (simp add: applyPriceLevelDelta_def)
  obtain book' where new: "localOrderbooks (applyDelta ?s ''BTC'' ?delta) ''BTC'' = Some book'"
    and b: "sideLevels True book'
              = applyLevelDeltas [(100, 5), (99, 5), (98, 4), (97, 1)] [(100, - 5), (96, - 1)] True"
    and a: "sideLevels (\<not> True) book'
              = applyLevelDeltas (sideLevels (\<not> True) ?book) (sidePairs (\<not> True) ?delta) (\<not> True)"
    and rest: "symbol book' = symbol ?book" "timestamp book' = d_timestamp ?delta"
      "nonce book' = Some (d_nonce ?delta)"
    using applyDelta_pairs[of ?s "''BTC''" ?book ?delta True "[(99, 3)]" 98 4
        "[(100, - 5), (96, - 1)]" "[(100, 5), (99, 5), (97, 1)]"
        "[(100, 5), (99, 5), (98, 4), (97, 1)]" 0 0]
      found fresh split before after
    by blast
  have bids': "bids book' = [(99, 5), (98, 4), (97, 1)]"
    using b by (simp add: sideLevels_def applyPriceLevelDelta_def)
  have cents: "applyPriceLevelDelta [(101, 5764607523034235 / 2 ^ 59), (103, 2)] 101
                 (5764607523034235 / 2 ^ 58) False
               = [(101, 1080863910568919 / 2 ^ 55), (103, 2)]"
    using binary64_cents_sum by (simp add: applyPriceLevelDelta_def)
  have asks': "asks book' = [(102, 4)]"
    using a cents by (simp add: sideLevels_def sidePairs_def applyPriceLevelDelta_def)
  show ?thesis
    using new bids' asks' rest by (cases book') simp
qed

text \<open>
  C3, as stated: every book reached by loading a snapshot and applying deltas has its bids
  strictly descending and its asks strictly ascending. The snapshot is stored as the venue
  sends it, so this fails for a snapshot that is out of order: here the bids of the snapshot
  hold the price 100 twice, and they still do after a delta.
\<close>

theorem bookSorted_any_snapshot_counterexample:
  "subscribeOrderbook newSubscription ''BTC''
     (Some \<lparr> r_bids = [(100, 5), (100, 3)], r_asks = [(101, 5)],
             r_symbol = None, r_timestamp = Some 1, r_nonce = Some 0 \<rparr>) 1
   = Inr \<lparr> eventSources = {''BTC''},
           localOrderbooks = [''BTC'' \<mapsto>
             \<lparr> symbol = ''BTC'', bids = [(100, 5), (100, 3)], asks = [(101, 5)],
               timestamp = 1, nonce = Some 0 \<rparr>] \<rparr>
   \<and> localOrderbooks
        (applyDeltas
           \<lparr> eventSources = {''BTC''},
             localOrderbooks = [''BTC'' \<mapsto>
               \<lparr> symbol = ''BTC'', bids = [(100, 5), (100, 3)], asks = [(101, 5)],
                 timestamp = 1, nonce = Some 0 \<rparr>] \<rparr>
           ''BTC''
           [\<lparr> d_bids = [(99, 1)], d_asks = [], d_timestamp = 2, d_nonce = 1 \<rparr>])
        ''BTC''
     = Some \<lparr> symbol = ''BTC'', bids = [(100, 5), (100, 3), (99, 1)], asks = [(101, 5)],
              timestamp = 2, nonce = Some 1 \<rparr>
   \<and> \<not> bookSorted \<lparr> symbol = ''BTC'', bids = [(100, 5), (100, 3), (99, 1)], asks = [(101, 5)],
                      timestamp = 2, nonce = Some 1 \<rparr>"
  by (simp add: subscribeOrderbook_def newSubscription_def getOrderbook_def str_or_def num_or_def
      applyDelta_def applyPriceLevelDelta_def bookSorted_def sideSorted_def)

text \<open>
  C3, amended: when the bids of the snapshot are strictly descending and its asks strictly
  ascending, every book reached from it by any sequence of deltas has its bids strictly
  descending and its asks strictly ascending, and so no two levels of a side at one price.
\<close>

theorem bookSorted_from_sorted_snapshot:
  assumes "chId \<notin> eventSources s"
    and "sideSorted True (r_bids r)" and "sideSorted False (r_asks r)"
  shows "\<exists>s1 book. subscribeOrderbook s chId (Some r) now = Inr s1
           \<and> localOrderbooks (applyDeltas s1 chId ds) chId = Some book
           \<and> bookSorted book"
proof -
  let ?s1 = "s \<lparr> localOrderbooks := (localOrderbooks s)(chId \<mapsto> getOrderbook r chId now),
                 eventSources := insert chId (eventSources s) \<rparr>"
  have sub: "subscribeOrderbook s chId (Some r) now = Inr ?s1"
    using assms(1) by (simp add: subscribeOrderbook_def)
  have "localOrderbooks ?s1 chId = Some (getOrderbook r chId now)"
    by simp
  moreover have "bookSorted (getOrderbook r chId now)"
    using assms(2,3) by (simp add: bookSorted_def getOrderbook_def)
  ultimately obtain book where
    "localOrderbooks (applyDeltas ?s1 chId ds) chId = Some book" "bookSorted book"
    using applyDeltas_keep_sorted by blast
  then show ?thesis
    using sub by blast
qed

text \<open>
  A subscription that already follows ETH subscribes to BTC with a snapshot of three bids
  and two asks. The first delta puts a bid between 99 and 97 and an ask between 101 and
  103; the second removes the best bid, adds to the bid at 99, appends an ask at 104 and
  puts an ask at 100 before all others; the third repeats the nonce 2 and is dropped.
\<close>

theorem bookSorted_from_sorted_snapshot_witness:
  "\<exists>s1.
     subscribeOrderbook
       \<lparr> eventSources = {''ETH''},
         localOrderbooks = [''ETH'' \<mapsto>
           \<lparr> symbol = ''ETH'', bids = [(10, 1)], asks = [(11, 1)], timestamp = 0, nonce = None \<rparr>] \<rparr>
       ''BTC''
       (Some \<lparr> r_bids = [(100, 5), (99, 2), (97, 1)], r_asks = [(101, 5), (103, 2)],
               r_symbol = None, r_timestamp = Some 1, r_nonce = Some 0 \<rparr>) 1 = Inr s1
     \<and> localOrderbooks
          (applyDeltas s1 ''BTC''
             [\<lparr> d_bids = [(98, 4)], d_asks = [(102, 3)], d_timestamp = 2, d_nonce = 1 \<rparr>,
              \<lparr> d_bids = [(100, - 5), (99, 1)], d_asks = [(104, 1), (100, 2)],
                d_timestamp = 3, d_nonce = 2 \<rparr>,
              \<lparr> d_bids = [(50, 1)], d_asks = [], d_timestamp = 4, d_nonce = 2 \<rparr>])
          ''BTC''
        = Some \<lparr> symbol = ''BTC'', bids = [(99, 3), (98, 4), (97, 1)],
                 asks = [(100, 2), (101, 5), (102, 3), (103, 2), (104, 1)],
                 timestamp = 3, nonce = Some 2 \<rparr>
     \<and> bookSorted \<lparr> symbol = ''BTC'', bids = [(99, 3), (98, 4), (97, 1)],
                     asks = [(100, 2), (101, 5), (102, 3), (103, 2), (104, 1)],
                     timestamp = 3, nonce = Some 2 \<rparr>"
proof -
  let ?s = "\<lparr> eventSources = {''ETH''},
         localOrderbooks = [''ETH'' \<mapsto>
           \<lparr> symbol = ''ETH'', bids = [(10, 1)], asks = [(11, 1)], timestamp = 0, nonce = None \<rparr>] \<rparr>"
  let ?r = "\<lparr> r_bids = [(100, 5), (99, 2), (97, 1)], r_asks = [(101, 5), (103, 2)],
               r_symbol = None, r_timestamp = Some 1, r_nonce = Some 0 \<rparr>"
  let ?ds = "[\<lparr> d_bids = [(98, 4)], d_asks = [(102, 3)], d_timestamp = 2, d_nonce = 1 \<rparr>,
              \<lparr> d_bids = [(100, - 5), (99, 1)], d_asks = [(104, 1), (100, 2)],
                d_timestamp = 3, d_nonce = 2 \<rparr>,
              \<lparr> d_bids = [(50, 1)], d_asks = [], d_timestamp = 4, d_nonce = 2 \<rparr>]"
  have new: "''BTC'' \<notin> eventSources ?s"
    by simp
  have sorted: "sideSorted True (r_bids ?r)" "sideSorted False (r_asks ?r)"
    by (simp_all add: sideSorted_def)
  obtain s1 book where sub: "subscribeOrderbook ?s ''BTC'' (Some ?r) 1 = Inr s1"
    and look: "localOrderbooks (applyDeltas s1 ''BTC'' ?ds) ''BTC'' = Some book"
    and ord: "bookSorted book"
    using bookSorted_from_sorted_snapshot[OF new sorted, of 1 ?ds] by blast
  have s1: "s1 = \<lparr> eventSources = {''BTC'', ''ETH''},
         localOrderbooks = [''ETH'' \<mapsto>
           \<lparr> symbol = ''ETH'', bids = [(10, 1)], asks = [(11, 1)], timestamp = 0, nonce = None \<rparr>,
           ''BTC'' \<mapsto>
           \<lparr> symbol = ''BTC'', bids = [(100, 5), (99, 2), (97, 1)], asks = [(101, 5), (103, 2)],
             timestamp = 1, nonce = Some 0 \<rparr>] \<rparr>"
    using sub by (simp add: subscribeOrderbook_def getOrderbook_def str_or_def num_or_def)
  have "book = \<lparr> symbol = ''BTC'', bids = [(99, 3), (98, 4), (97, 1)],
                 asks = [(100, 2), (101, 5), (102, 3), (103, 2), (104, 1)],
                 timestamp = 3, nonce = Some 2 \<rparr>"
    using look
    by (simp add: s1 applyDelta_def applyPriceLevelDelta_def binary64_numeral)
  then show ?thesis
    using sub look ord by blast
qed

text \<open>
  C9. A local book whose nonce is undefined takes every delta, whatever the nonce of the
  delta: the level deltas are applied, the book gets the timestamp and the nonce of the
  delta, so the book is not what it was; from then on the book holds a nonce and a delta
  whose nonce is not beyond it is dropped.
\<close>

theorem applyDelta_undefined_nonce:
  assumes "localOrderbooks s chId = Some book" and "nonce book = None"
  shows "localOrderbooks (applyDelta s chId delta) chId =
           Some (book \<lparr> bids := applyLevelDeltas (bids book) (d_bids delta) True,
                        asks := applyLevelDeltas (asks book) (d_asks delta) False,
                        timestamp := d_timestamp delta,
                        nonce := Some (d_nonce delta) \<rparr>)
       \<and> applyDelta s chId delta \<noteq> s
       \<and> (\<forall>delta'. d_nonce delta' \<le> d_nonce delta \<longrightarrow>
            applyDelta (applyDelta s chId delta) chId delta' = applyDelta s chId delta)"
proof -
  let ?book' = "book \<lparr> bids := applyLevelDeltas (bids book) (d_bids delta) True,
                        asks := applyLevelDeltas (asks book) (d_asks delta) False,
                        timestamp := d_timestamp delta,
                        nonce := Some (d_nonce delta) \<rparr>"
  have new: "localOrderbooks (applyDelta s chId delta) chId = Some ?book'"
    using assms by (intro applyDelta_fresh) auto
  have "nonce ?book' \<noteq> nonce book"
    using assms(2) by simp
  then have "?book' \<noteq> book" by force
  then have changed: "applyDelta s chId delta \<noteq> s"
    using new assms(1) by force
  have "applyDelta (applyDelta s chId delta) chId delta' = applyDelta s chId delta"
    if "d_nonce delta' \<le> d_nonce delta" for delta'
    using that new by (simp add: applyDelta_def[of "applyDelta s chId delta"])
  then show ?thesis
    using new changed by blast
qed

theorem applyDelta_undefined_nonce_witness:
  "localOrderbooks
     (applyDelta
        \<lparr> eventSources = {''BTC''},
          localOrderbooks = [''BTC'' \<mapsto>
            \<lparr> symbol = ''BTC'', bids = [(100, 5)], asks = [(101, 5)], timestamp = 7, nonce = None \<rparr>] \<rparr>
        ''BTC''
        \<lparr> d_bids = [(100, - 5)], d_asks = [], d_timestamp = 8, d_nonce = - 3 \<rparr>)
     ''BTC''
   = Some \<lparr> symbol = ''BTC'', bids = [], asks = [(101, 5)], timestamp = 8, nonce = Some (- 3) \<rparr>"
proof -
  let ?book = "\<lparr> symbol = ''BTC'', bids = [(100, 5)], asks = [(101, 5)], timestamp = 7, nonce = None \<rparr>"
  let ?s = "\<lparr> eventSources = {''BTC''}, localOrderbooks = [''BTC'' \<mapsto> ?book] \<rparr>"
  let ?delta = "\<lparr> d_bids = [(100, - 5)], d_asks = [], d_timestamp = 8, d_nonce = - 3 \<rparr>"
  have "localOrderbooks ?s ''BTC'' = Some ?book" by simp
  moreover have "nonce ?book = None" by simp
  ultimately have "localOrderbooks (applyDelta ?s ''BTC'' ?delta) ''BTC'' =
           Some (?book \<lparr> bids := applyLevelDeltas (bids ?book) (d_bids ?delta) True,
                        asks := applyLevelDeltas (asks ?book) (d_asks ?delta) False,
                        timestamp := d_timestamp ?delta,
                        nonce := Some (d_nonce ?delta) \<rparr>)"
    by (rule applyDelta_undefined_nonce[THEN conjunct1])
  then show ?thesis
    by (simp add: applyPriceLevelDelta_def)
qed

section \<open>Claims on the fair price\<close>

text \<open>
  C5, as stated: once the elapsed time has reached the warmup period and the count of
  ticks has reached the threshold at some call, no later call gives \<^verbatim>\<open>null\<close>.
  Two runs of the code say otherwise. A calculator configured with the threshold -1 that
  has not taken any tick satisfies both conditions ten seconds after its construction, and
  has no average to give, at that call or later. And a calculator with the default
  configuration that has taken ten ticks of price 100 gives 100 when the clock reads 10000,
  and \<^verbatim>\<open>null\<close> at a later call at which the clock, set back, reads 9000:
  the elapsed time is measured anew from \<^verbatim>\<open>Date.now()\<close> at every call.
\<close>

theorem getFairPrice_null_after_ready_counterexample:
  "10000 - startTime (newFairPriceCalculator
       (Some \<lparr> c_windowMs = None, c_alpha = None, c_minPrices = Some (- 1), c_warmupMs = None \<rparr>) 0)
     \<ge> warmupMs (newFairPriceCalculator
       (Some \<lparr> c_windowMs = None, c_alpha = None, c_minPrices = Some (- 1), c_warmupMs = None \<rparr>) 0)
   \<and> real (priceCount (newFairPriceCalculator
       (Some \<lparr> c_windowMs = None, c_alpha = None, c_minPrices = Some (- 1), c_warmupMs = None \<rparr>) 0))
     \<ge> minPrices (newFairPriceCalculator
       (Some \<lparr> c_windowMs = None, c_alpha = None, c_minPrices = Some (- 1), c_warmupMs = None \<rparr>) 0)
   \<and> getFairPrice (newFairPriceCalculator
       (Some \<lparr> c_windowMs = None, c_alpha = None, c_minPrices = Some (- 1), c_warmupMs = None \<rparr>) 0)
       10000 = None
   \<and> getFairPrice (newFairPriceCalculator
       (Some \<lparr> c_windowMs = None, c_alpha = None, c_minPrices = Some (- 1), c_warmupMs = None \<rparr>) 0)
       20000 = None
   \<and> 10000 - startTime (feedTicks (newFairPriceCalculator None 0) (replicate 10 (100, 500)))
     \<ge> warmupMs (feedTicks (newFairPriceCalculator None 0) (replicate 10 (100, 500)))
   \<and> real (priceCount (feedTicks (newFairPriceCalculator None 0) (replicate 10 (100, 500))))
     \<ge> minPrices (feedTicks (newFairPriceCalculator None 0) (replicate 10 (100, 500)))
   \<and> getFairPrice (feedTicks (newFairPriceCalculator None 0) (replicate 10 (100, 500))) 10000
     = Some 100
   \<and> getFairPrice (feedTicks (newFairPriceCalculator None 0) (replicate 10 (100, 500))) 9000
     = None"
proof -
  let ?n = "newFairPriceCalculator
       (Some \<lparr> c_windowMs = None, c_alpha = None, c_minPrices = Some (- 1), c_warmupMs = None \<rparr>) 0"
  let ?s = "feedTicks (newFairPriceCalculator None 0) (replicate 10 (100, 500))"
  have n: "startTime ?n = 0" "warmupMs ?n = 10000" "minPrices ?n = - 1" "priceCount ?n = 0"
    "ema ?n = None"
    by (simp_all add: newFairPriceCalculator_def Let_def num_or_def DEFAULT_WARMUP_MS_def)
  have s: "startTime ?s = 0" "warmupMs ?s = 10000" "minPrices ?s = 10" "priceCount ?s = 10"
    by (simp_all add: newFairPriceCalculator_def Let_def num_or_def DEFAULT_WARMUP_MS_def
        DEFAULT_MIN_PRICES_def)
  have same: "ema (feedTicks c (replicate k (100, 500))) = Some 100" if "ema c = Some 100" for c k
    using that by (induction k arbitrary: c) (simp_all add: updateEMA_def algebra_simps)
  have "ema (updateEMA (newFairPriceCalculator None 0) 100 500) = Some 100"
    by (simp add: updateEMA_def newFairPriceCalculator_def Let_def)
  then have "ema (feedTicks (updateEMA (newFairPriceCalculator None 0) 100 500)
                    (replicate 9 (100, 500))) = Some 100"
    by (rule same)
  then have e: "ema ?s = Some 100"
    by (simp add: numeral_eq_Suc)
  show ?thesis
    by (simp only: n s e getFairPrice_def isReady_def isWarmedUp_def Let_def) simp
qed

text \<open>
  C5, amended. For a calculator built at time \<open>t0\<close> that has taken the ticks
  \<open>ticks\<close>: the ticks are counted one by one, the elapsed time is the clock reading
  minus \<open>t0\<close>, and the threshold is 10 when none is configured.
  \<^verbatim>\<open>getFairPrice\<close> gives \<^verbatim>\<open>null\<close> (\<open>None\<close>) unless the
  elapsed time has reached the warmup period and the count has reached the threshold. Once
  both hold at a call before which at least one tick was taken, that call and every call at
  a clock reading that is not smaller, after any further ticks, gives a price.
\<close>

theorem getFairPrice_gate:
  assumes "s = feedTicks (newFairPriceCalculator cfg t0) ticks"
  shows "startTime s = t0
       \<and> priceCount s = length ticks
       \<and> (Option.bind cfg c_minPrices = None \<longrightarrow> minPrices s = 10)
       \<and> (getFairPrice s now \<noteq> None \<longrightarrow>
            now - t0 \<ge> warmupMs s \<and> real (priceCount s) \<ge> minPrices s)
       \<and> (ticks \<noteq> [] \<and> now - t0 \<ge> warmupMs s \<and> real (priceCount s) \<ge> minPrices s
            \<and> now \<le> later \<longrightarrow>
            getFairPrice s now \<noteq> None \<and> getFairPrice (feedTicks s extra) later \<noteq> None)"
proof -
  have start: "startTime s = t0"
    using assms by (simp add: newFairPriceCalculator_def Let_def)
  have dflt: "minPrices s = 10" if "Option.bind cfg c_minPrices = None"
    using assms that by (simp add: newFairPriceCalculator_def Let_def num_or_def DEFAULT_MIN_PRICES_def)
  have gate: "now - t0 \<ge> warmupMs s \<and> real (priceCount s) \<ge> minPrices s"
    if "getFairPrice s now \<noteq> None"
    using that start by (simp add: getFairPrice_def isReady_def isWarmedUp_def split: if_splits)
  have ready: "getFairPrice s now \<noteq> None \<and> getFairPrice (feedTicks s extra) later \<noteq> None"
    if h: "ticks \<noteq> [] \<and> now - t0 \<ge> warmupMs s \<and> real (priceCount s) \<ge> minPrices s \<and> now \<le> later"
  proof -
    have e: "ema s \<noteq> None"
      using assms h feedTicks_ema_set by blast
    then have e': "ema (feedTicks s extra) \<noteq> None"
      by (rule feedTicks_ema_kept)
    have "real (priceCount s) \<le> real (priceCount (feedTicks s extra))"
      by simp
    then show ?thesis
      using h e e' start by (simp add: getFairPrice_def isReady_def isWarmedUp_def)
  qed
  have count: "priceCount s = length ticks"
    using assms by (simp add: newFairPriceCalculator_def Let_def)
  show ?thesis
    using start count dflt gate ready by blast
qed

text \<open>
  The default configuration with ten ticks, and the threshold -1 with one tick: each gives
  a price ten seconds after construction, and again later after one more tick.
\<close>

theorem getFairPrice_gate_witness:
  "getFairPrice (feedTicks (newFairPriceCalculator None 0) (replicate 10 (100, 500))) 10000 \<noteq> None
   \<and> getFairPrice
        (feedTicks (feedTicks (newFairPriceCalculator None 0) (replicate 10 (100, 500))) [(101, 10500)])
        11000 \<noteq> None
   \<and> getFairPrice
        (feedTicks (newFairPriceCalculator
           (Some \<lparr> c_windowMs = None, c_alpha = None, c_minPrices = Some (- 1), c_warmupMs = None \<rparr>) 0)
           [(100, 500)])
        10000 \<noteq> None
   \<and> getFairPrice
        (feedTicks
           (feedTicks (newFairPriceCalculator
              (Some \<lparr> c_windowMs = None, c_alpha = None, c_minPrices = Some (- 1), c_warmupMs = None \<rparr>) 0)
              [(100, 500)])
           [(101, 10500)])
        12000 \<noteq> None"
proof -
  let ?s = "feedTicks (newFairPriceCalculator None 0) (replicate 10 (100, 500))"
  let ?cfg = "Some \<lparr> c_windowMs = None, c_alpha = None, c_minPrices = Some (- 1), c_warmupMs = None \<rparr>"
  let ?n = "feedTicks (newFairPriceCalculator ?cfg 0) [(100, 500)]"
  have "replicate 10 (100::real, 500::real) \<noteq> [] \<and> 10000 - 0 \<ge> warmupMs ?s
          \<and> real (priceCount ?s) \<ge> minPrices ?s \<and> (10000::real) \<le> 11000"
    by (simp add: newFairPriceCalculator_def Let_def num_or_def DEFAULT_MIN_PRICES_def
        DEFAULT_WARMUP_MS_def)
  then have 1: "getFairPrice ?s 10000 \<noteq> None
      \<and> getFairPrice (feedTicks ?s [(101, 10500)]) 11000 \<noteq> None"
    using getFairPrice_gate[of ?s None 0 "replicate 10 (100, 500)" 10000 11000 "[(101, 10500)]"]
    by blast
  have "[(100::real, 500::real)] \<noteq> [] \<and> 10000 - 0 \<ge> warmupMs ?n
          \<and> real (priceCount ?n) \<ge> minPrices ?n \<and> (10000::real) \<le> 12000"
    by (simp add: newFairPriceCalculator_def Let_def num_or_def DEFAULT_WARMUP_MS_def)
  then have 2: "getFairPrice ?n 10000 \<noteq> None
      \<and> getFairPrice (feedTicks ?n [(101, 10500)]) 12000 \<noteq> None"
    using getFairPrice_gate[of ?n ?cfg 0 "[(100, 500)]" 10000 12000 "[(101, 10500)]"]
    by blast
  show ?thesis
    using 1 2 by simp
qed



section \<open>Claims on the configuration\<close>

text \<open>
  C8. \<^verbatim>\<open>validateConfig\<close> throws when the spread, the order size or the close
  threshold is not positive, or when \<open>maxPositionUsd \<le> closeThresholdUsd\<close>; it returns
  normally for a configuration with a non-empty exchange and symbol, a positive spread,
  order size and close threshold, and \<open>maxPositionUsd\<close> above the close threshold.
\<close>

theorem validateConfig_fatal:
  "(spreadBps c \<le> 0 \<or> orderSizeUsd c \<le> 0 \<or> closeThresholdUsd c \<le> 0
      \<or> maxPositionUsd c \<le> closeThresholdUsd c \<longrightarrow> (\<exists>msg. validateConfig c = Inl (ConfigError msg)))
   \<and> (exchange c \<noteq> [] \<and> cfg_symbol c \<noteq> [] \<and> 0 < spreadBps c \<and> 0 < orderSizeUsd c
        \<and> 0 < closeThresholdUsd c \<and> closeThresholdUsd c < maxPositionUsd c
      \<longrightarrow> validateConfig c = Inr ())"
  by (simp add: validateConfig_def)

text \<open>The default configuration passes; with \<open>maxPositionUsd\<close> lowered to the close
  threshold it does not.\<close>

theorem validateConfig_fatal_witness:
  "validateConfig (mergeConfig ''hyperliquid'' ''BTC'') = Inr ()
   \<and> (\<exists>msg. validateConfig ((mergeConfig ''hyperliquid'' ''BTC'') \<lparr> maxPositionUsd := 500 \<rparr>)
              = Inl (ConfigError msg))"
proof -
  let ?ok = "mergeConfig ''hyperliquid'' ''BTC''"
  let ?bad = "(mergeConfig ''hyperliquid'' ''BTC'') \<lparr> maxPositionUsd := 500 \<rparr>"
  have "exchange ?ok \<noteq> [] \<and> cfg_symbol ?ok \<noteq> [] \<and> 0 < spreadBps ?ok \<and> 0 < orderSizeUsd ?ok
        \<and> 0 < closeThresholdUsd ?ok \<and> closeThresholdUsd ?ok < maxPositionUsd ?ok"
    by (simp add: mergeConfig_def)
  then have 1: "validateConfig ?ok = Inr ()"
    using validateConfig_fatal[of ?ok] by blast
  have "maxPositionUsd ?bad \<le> closeThresholdUsd ?bad"
    by (simp add: mergeConfig_def)
  then have 2: "\<exists>msg. validateConfig ?bad = Inl (ConfigError msg)"
    using validateConfig_fatal[of ?bad] by blast
  show ?thesis
    using 1 2 by (rule conjI)
qed

section \<open>Claims on the quoter\<close>

text \<open>
  C4, as stated: whenever \<open>|positionNotional| \<le> closeThresholdUsd\<close> both sizes of the
  quote are positive. The sizes are \<open>orderSizeUsd / fairPrice\<close> passed through
  \<^verbatim>\<open>roundSize\<close>, and that can be zero: with the default configuration, 100 USD
  at the fair price 50000 is 0.002; times 100 that is 0.2, whose floor is 0, so a market
  with two decimals of size gets the size 0 on both sides.
\<close>

theorem generateQuotes_sizes_positive_counterexample:
  "\<bar>0 :: real\<bar> \<le> closeThresholdUsd (mergeConfig ''aftermath'' ''BTC'')
   \<and> generateQuotes
        \<lparr> config = mergeConfig ''aftermath'' ''BTC'',
          market = Some \<lparr> m_id = ''BTC'', m_symbol = ''BTC/USD:USDC'', pricePrecision = 1,
                          sizePrecision = 2, minSize = 1 / 100, tickSize = 1 / 10 \<rparr> \<rparr>
        50000 0
     = \<lparr> bidPrice = 49950, askPrice = 50050, bidSize = 0, askSize = 0,
         fairPrice = 50000, q_spreadBps = 10, isCloseMode = False \<rparr>"
proof -
  let ?m = "\<lparr> m_id = ''BTC'', m_symbol = ''BTC/USD:USDC'', pricePrecision = 1,
                          sizePrecision = 2, minSize = 1 / 100, tickSize = 1 / 10 \<rparr>"
  let ?q = "\<lparr> config = mergeConfig ''aftermath'' ''BTC'', market = Some ?m \<rparr>"
  have btc: "cfg_symbol (config ?q) = ''BTC''"
    by (simp add: mergeConfig_def)
  have mkt: "market ?q = Some ?m" and prec: "sizePrecision ?m = 2"
    by simp_all
  have flat: "\<bar>0 :: real\<bar> \<le> closeThresholdUsd (mergeConfig ''aftermath'' ''BTC'')"
    by (simp add: mergeConfig_def)
  have "generateQuotes ?q 50000 0
     = \<lparr> bidPrice = roundToTick_binary64 ?q (binary64 (50000 * binary64 (1 - binary64 (10 / 10000)))) down,
         askPrice = roundToTick_binary64 ?q (binary64 (50000 * binary64 (1 + binary64 (10 / 10000)))) up,
         bidSize = roundSize ?q (binary64 (100 / 50000)),
         askSize = roundSize ?q (binary64 (100 / 50000)),
         fairPrice = 50000, q_spreadBps = 10, isCloseMode = False \<rparr>"
    by (simp add: generateQuotes_def mergeConfig_def Let_def)
  also have "\<dots> = \<lparr> bidPrice = 49950, askPrice = 50050, bidSize = 0, askSize = 0,
         fairPrice = 50000, q_spreadBps = 10, isCloseMode = False \<rparr>"
    by (simp only: rawPrices_normal roundToTick_binary64_normal[OF btc] binary64_baseSize
        roundSize_baseSize(1)[OF mkt prec])
  finally show ?thesis
    using flat by simp
qed

text \<open>
  C4, amended. When \<open>|positionNotional| > closeThresholdUsd\<close> the quote has
  \<open>isCloseMode\<close> set, its spread and its two prices are computed from
  \<open>takeProfitBps\<close>, the bid size is 0 for a long position and the ask size is 0 for a
  short one. When \<open>|positionNotional| \<le> closeThresholdUsd\<close> the quote has
  \<open>isCloseMode\<close> unset, its spread and its two prices are computed from
  \<open>spreadBps\<close>, and both sizes are the one value \<^verbatim>\<open>roundSize\<close> gives for
  \<open>orderSizeUsd / fairPrice\<close>. For a positive fair price and order size that value is
  not negative, and it is positive unless a market is set and the product of
  \<open>orderSizeUsd / fairPrice\<close> and \<open>10\<close> to the size precision, as the program
  computes it, is below 1; then both sizes are 0.
\<close>

theorem generateQuotes_modes:
  "(\<bar>pn\<bar> > closeThresholdUsd (config q) \<longrightarrow>
      isCloseMode (generateQuotes q fp pn)
      \<and> q_spreadBps (generateQuotes q fp pn) = takeProfitBps (config q)
      \<and> bidPrice (generateQuotes q fp pn) =
          (if market q \<noteq> None
           then roundToTick_binary64 q
                  (binary64 (fp * binary64 (1 - binary64 (takeProfitBps (config q) / 10000)))) down
           else binary64 (fp * binary64 (1 - binary64 (takeProfitBps (config q) / 10000))))
      \<and> askPrice (generateQuotes q fp pn) =
          (if market q \<noteq> None
           then roundToTick_binary64 q
                  (binary64 (fp * binary64 (1 + binary64 (takeProfitBps (config q) / 10000)))) up
           else binary64 (fp * binary64 (1 + binary64 (takeProfitBps (config q) / 10000))))
      \<and> (pn > 0 \<longrightarrow> bidSize (generateQuotes q fp pn) = 0)
      \<and> (pn < 0 \<longrightarrow> askSize (generateQuotes q fp pn) = 0))
   \<and> (\<bar>pn\<bar> \<le> closeThresholdUsd (config q) \<longrightarrow>
      \<not> isCloseMode (generateQuotes q fp pn)
      \<and> q_spreadBps (generateQuotes q fp pn) = spreadBps (config q)
      \<and> bidPrice (generateQuotes q fp pn) =
          (if market q \<noteq> None
           then roundToTick_binary64 q
                  (binary64 (fp * binary64 (1 - binary64 (spreadBps (config q) / 10000)))) down
           else binary64 (fp * binary64 (1 - binary64 (spreadBps (config q) / 10000))))
      \<and> askPrice (generateQuotes q fp pn) =
          (if market q \<noteq> None
           then roundToTick_binary64 q
                  (binary64 (fp * binary64 (1 + binary64 (spreadBps (config q) / 10000)))) up
           else binary64 (fp * binary64 (1 + binary64 (spreadBps (config q) / 10000))))
      \<and> (fp \<noteq> 0 \<longrightarrow>
           bidSize (generateQuotes q fp pn) = roundSize q (binary64 (orderSizeUsd (config q) / fp))
           \<and> askSize (generateQuotes q fp pn) = roundSize q (binary64 (orderSizeUsd (config q) / fp)))
      \<and> (0 < fp \<and> 0 < orderSizeUsd (config q) \<longrightarrow>
           0 \<le> bidSize (generateQuotes q fp pn)
           \<and> askSize (generateQuotes q fp pn) = bidSize (generateQuotes q fp pn)
           \<and> (0 < bidSize (generateQuotes q fp pn) \<longleftrightarrow>
                (\<forall>m. market q = Some m \<longrightarrow>
                   1 \<le> binary64 (binary64 (orderSizeUsd (config q) / fp)
                                    * binary64 (10 ^ sizePrecision m))))))"
proof -
  have close: "\<bar>pn\<bar> > closeThresholdUsd (config q) \<Longrightarrow>
      isCloseMode (generateQuotes q fp pn)
      \<and> q_spreadBps (generateQuotes q fp pn) = takeProfitBps (config q)
      \<and> bidPrice (generateQuotes q fp pn) =
          (if market q \<noteq> None
           then roundToTick_binary64 q
                  (binary64 (fp * binary64 (1 - binary64 (takeProfitBps (config q) / 10000)))) down
           else binary64 (fp * binary64 (1 - binary64 (takeProfitBps (config q) / 10000))))
      \<and> askPrice (generateQuotes q fp pn) =
          (if market q \<noteq> None
           then roundToTick_binary64 q
                  (binary64 (fp * binary64 (1 + binary64 (takeProfitBps (config q) / 10000)))) up
           else binary64 (fp * binary64 (1 + binary64 (takeProfitBps (config q) / 10000))))
      \<and> (pn > 0 \<longrightarrow> bidSize (generateQuotes q fp pn) = 0)
      \<and> (pn < 0 \<longrightarrow> askSize (generateQuotes q fp pn) = 0)"
    by (auto simp: generateQuotes_def Let_def)
  have normal: "\<not> isCloseMode (generateQuotes q fp pn)
      \<and> q_spreadBps (generateQuotes q fp pn) = spreadBps (config q)
      \<and> bidPrice (generateQuotes q fp pn) =
          (if market q \<noteq> None
           then roundToTick_binary64 q
                  (binary64 (fp * binary64 (1 - binary64 (spreadBps (config q) / 10000)))) down
           else binary64 (fp * binary64 (1 - binary64 (spreadBps (config q) / 10000))))
      \<and> askPrice (generateQuotes q fp pn) =
          (if market q \<noteq> None
           then roundToTick_binary64 q
                  (binary64 (fp * binary64 (1 + binary64 (spreadBps (config q) / 10000)))) up
           else binary64 (fp * binary64 (1 + binary64 (spreadBps (config q) / 10000))))"
    if "\<bar>pn\<bar> \<le> closeThresholdUsd (config q)"
    using that by (simp add: generateQuotes_def Let_def)
  have sizes: "bidSize (generateQuotes q fp pn) = roundSize q (binary64 (orderSizeUsd (config q) / fp))
        \<and> askSize (generateQuotes q fp pn) = roundSize q (binary64 (orderSizeUsd (config q) / fp))"
    if "\<bar>pn\<bar> \<le> closeThresholdUsd (config q)"
    using that by (cases "market q") (simp_all add: generateQuotes_def Let_def roundSize_def)
  have pos: "0 \<le> bidSize (generateQuotes q fp pn)
           \<and> askSize (generateQuotes q fp pn) = bidSize (generateQuotes q fp pn)
           \<and> (0 < bidSize (generateQuotes q fp pn) \<longleftrightarrow>
                (\<forall>m. market q = Some m \<longrightarrow>
                   1 \<le> binary64 (binary64 (orderSizeUsd (config q) / fp)
                                    * binary64 (10 ^ sizePrecision m))))"
    if le: "\<bar>pn\<bar> \<le> closeThresholdUsd (config q)" and "0 < fp \<and> 0 < orderSizeUsd (config q)"
  proof -
    let ?base = "binary64 (orderSizeUsd (config q) / fp)"
    have base: "0 < ?base"
      using that(2) by (intro binary64_pos) simp
    then have "0 \<le> roundSize q ?base"
      by (intro roundSize_nonneg) simp
    moreover have "0 < roundSize q ?base \<longleftrightarrow>
        (\<forall>m. market q = Some m \<longrightarrow> 1 \<le> binary64 (?base * binary64 (10 ^ sizePrecision m)))"
      using base by (cases "market q") (simp_all add: roundSize_pos_iff)
    ultimately show ?thesis
      using sizes[OF le] by simp
  qed
  show ?thesis
    using close sizes pos normal by blast
qed

text \<open>
  The scenarios of the specification on a market with five decimals of size: a long
  position of 600 USD gives the close-mode quote with no bid, a flat position gives the
  normal quote with the size 0.002 (\<open>1152921504606847 / 2\<^sup>5\<^sup>9\<close>) on both sides.
\<close>

theorem generateQuotes_modes_witness:
  "generateQuotes
        \<lparr> config = mergeConfig ''hyperliquid'' ''BTC'',
          market = Some \<lparr> m_id = ''0'', m_symbol = ''BTC/USD:USD'', pricePrecision = 1,
                          sizePrecision = 5, minSize = 1 / 100000, tickSize = 1 / 10 \<rparr> \<rparr>
        50000 600
     = \<lparr> bidPrice = 49975, askPrice = 50025, bidSize = 0, askSize = 1152921504606847 / 2 ^ 59,
         fairPrice = 50000, q_spreadBps = 5, isCloseMode = True \<rparr>
   \<and> generateQuotes
        \<lparr> config = mergeConfig ''hyperliquid'' ''BTC'',
          market = Some \<lparr> m_id = ''0'', m_symbol = ''BTC/USD:USD'', pricePrecision = 1,
                          sizePrecision = 5, minSize = 1 / 100000, tickSize = 1 / 10 \<rparr> \<rparr>
        50000 0
     = \<lparr> bidPrice = 49950, askPrice = 50050,
         bidSize = 1152921504606847 / 2 ^ 59, askSize = 1152921504606847 / 2 ^ 59,
         fairPrice = 50000, q_spreadBps = 10, isCloseMode = False \<rparr>
   \<and> 0 < bidSize (generateQuotes
        \<lparr> config = mergeConfig ''hyperliquid'' ''BTC'',
          market = Some \<lparr> m_id = ''0'', m_symbol = ''BTC/USD:USD'', pricePrecision = 1,
                          sizePrecision = 5, minSize = 1 / 100000, tickSize = 1 / 10 \<rparr> \<rparr>
        50000 0)"
proof -
  let ?m = "\<lparr> m_id = ''0'', m_symbol = ''BTC/USD:USD'', pricePrecision = 1,
                          sizePrecision = 5, minSize = 1 / 100000, tickSize = 1 / 10 \<rparr>"
  let ?q = "\<lparr> config = mergeConfig ''hyperliquid'' ''BTC'', market = Some ?m \<rparr>"
  have btc: "cfg_symbol (config ?q) = ''BTC''"
    by (simp add: mergeConfig_def)
  have mkt: "market ?q = Some ?m" and prec: "sizePrecision ?m = 5"
    by simp_all
  have cfg: "takeProfitBps (config ?q) = 5" "spreadBps (config ?q) = 10"
    "orderSizeUsd (config ?q) = 100"
    by (simp_all add: mergeConfig_def)
  have long: "\<bar>600 :: real\<bar> > closeThresholdUsd (config ?q)"
    by (simp add: mergeConfig_def)
  have flat: "\<bar>0 :: real\<bar> \<le> closeThresholdUsd (config ?q)"
    by (simp add: mergeConfig_def)
  have positive: "(0::real) < 50000 \<and> 0 < orderSizeUsd (config ?q)"
    by (simp add: mergeConfig_def)
  note inClose = generateQuotes_modes[where pn = 600 and q = ?q and fp = 50000,
      THEN conjunct1, rule_format, OF long]
  note inNormal = generateQuotes_modes[where pn = 0 and q = ?q and fp = 50000,
      THEN conjunct2, rule_format, OF flat]
  have c1: "isCloseMode (generateQuotes ?q 50000 600)"
    and c2: "q_spreadBps (generateQuotes ?q 50000 600) = 5"
    and c3: "bidSize (generateQuotes ?q 50000 600) = 0"
    using inClose cfg by simp_all
  have "bidPrice (generateQuotes ?q 50000 600)
          = roundToTick_binary64 ?q (binary64 (50000 * binary64 (1 - binary64 (5 / 10000)))) down"
    using inClose cfg(1) mkt by simp
  then have c4: "bidPrice (generateQuotes ?q 50000 600) = 49975"
    by (simp only: rawPrices_close roundToTick_binary64_close[OF btc])
  have "askPrice (generateQuotes ?q 50000 600)
          = roundToTick_binary64 ?q (binary64 (50000 * binary64 (1 + binary64 (5 / 10000)))) up"
    using inClose cfg(1) mkt by simp
  then have c5: "askPrice (generateQuotes ?q 50000 600) = 50025"
    by (simp only: rawPrices_close roundToTick_binary64_close[OF btc])
  have "askSize (generateQuotes ?q 50000 600) = roundSize ?q (binary64 (100 / 50000))"
    by (simp add: generateQuotes_def mergeConfig_def Let_def)
  then have c6: "askSize (generateQuotes ?q 50000 600) = 1152921504606847 / 2 ^ 59"
    by (simp only: binary64_baseSize roundSize_baseSize(2)[OF mkt prec])
  have c7: "fairPrice (generateQuotes ?q 50000 600) = 50000"
    by (simp add: generateQuotes_def Let_def)
  have 1: "generateQuotes ?q 50000 600
     = \<lparr> bidPrice = 49975, askPrice = 50025, bidSize = 0, askSize = 1152921504606847 / 2 ^ 59,
         fairPrice = 50000, q_spreadBps = 5, isCloseMode = True \<rparr>"
    using c1 c2 c3 c4 c5 c6 c7 by (cases "generateQuotes ?q 50000 600") simp
  have n1: "\<not> isCloseMode (generateQuotes ?q 50000 0)"
    and n2: "q_spreadBps (generateQuotes ?q 50000 0) = 10"
    using inNormal cfg by simp_all
  have "bidPrice (generateQuotes ?q 50000 0)
          = roundToTick_binary64 ?q (binary64 (50000 * binary64 (1 - binary64 (10 / 10000)))) down"
    using inNormal cfg(2) mkt by simp
  then have n3: "bidPrice (generateQuotes ?q 50000 0) = 49950"
    by (simp only: rawPrices_normal roundToTick_binary64_normal[OF btc])
  have "askPrice (generateQuotes ?q 50000 0)
          = roundToTick_binary64 ?q (binary64 (50000 * binary64 (1 + binary64 (10 / 10000)))) up"
    using inNormal cfg(2) mkt by simp
  then have n4: "askPrice (generateQuotes ?q 50000 0) = 50050"
    by (simp only: rawPrices_normal roundToTick_binary64_normal[OF btc])
  have "bidSize (generateQuotes ?q 50000 0) = roundSize ?q (binary64 (100 / 50000))"
    and "askSize (generateQuotes ?q 50000 0) = roundSize ?q (binary64 (100 / 50000))"
    using inNormal cfg(3) by simp_all
  then have n5: "bidSize (generateQuotes ?q 50000 0) = 1152921504606847 / 2 ^ 59"
    and n6: "askSize (generateQuotes ?q 50000 0) = 1152921504606847 / 2 ^ 59"
    by (simp_all only: binary64_baseSize roundSize_baseSize(2)[OF mkt prec])
  have n7: "fairPrice (generateQuotes ?q 50000 0) = 50000"
    by (simp add: generateQuotes_def Let_def)
  have 2: "generateQuotes ?q 50000 0
     = \<lparr> bidPrice = 49950, askPrice = 50050,
         bidSize = 1152921504606847 / 2 ^ 59, askSize = 1152921504606847 / 2 ^ 59,
         fairPrice = 50000, q_spreadBps = 10, isCloseMode = False \<rparr>"
    using n1 n2 n3 n4 n5 n6 n7 by (cases "generateQuotes ?q 50000 0") simp
  have "1 \<le> binary64 (binary64 (100 / 50000) * binary64 (10 ^ 5))"
    by (simp only: binary64_baseSize binary64_powers_of_ten binary64_size_product5)
  then have "\<forall>m. market ?q = Some m \<longrightarrow>
      1 \<le> binary64 (binary64 (orderSizeUsd (config ?q) / 50000) * binary64 (10 ^ sizePrecision m))"
    by (simp add: mergeConfig_def)
  then have 3: "0 < bidSize (generateQuotes ?q 50000 0)"
    using inNormal positive by blast
  show ?thesis
    using 1 2 3 by simp
qed

text \<open>
  C10. \<^verbatim>\<open>quoteToOrders\<close> gives one buy order exactly when the bid size is
  positive, followed by one sell order exactly when the ask size is positive; every order
  is post-only and not reduce-only; the \<open>isCloseMode\<close> flag of the quote changes
  nothing.
\<close>

theorem quoteToOrders_sides:
  "map o_side (quoteToOrders q quote)
     = (if bidSize quote > 0 then [buy] else []) @ (if askSize quote > 0 then [sell] else [])
   \<and> (\<forall>ord \<in> set (quoteToOrders q quote). postOnly ord = Some True \<and> reduceOnly ord = Some False)
   \<and> quoteToOrders q (quote \<lparr> isCloseMode := b \<rparr>) = quoteToOrders q quote"
  by (simp add: quoteToOrders_def)

text \<open>The close-mode quote of a long position, whose bid size is 0, gives the one sell order.\<close>

theorem quoteToOrders_sides_witness:
  "quoteToOrders
     \<lparr> config = mergeConfig ''hyperliquid'' ''BTC'',
       market = Some \<lparr> m_id = ''0'', m_symbol = ''BTC/USD:USD'', pricePrecision = 1,
                       sizePrecision = 5, minSize = 1 / 100000, tickSize = 1 / 10 \<rparr> \<rparr>
     \<lparr> bidPrice = 49975, askPrice = 50025, bidSize = 0, askSize = 1152921504606847 / 2 ^ 59,
       fairPrice = 50000, q_spreadBps = 5, isCloseMode = True \<rparr>
   = [\<lparr> o_symbol = ''BTC'', o_side = sell, o_type = limit, o_price = 50025,
        o_size = 1152921504606847 / 2 ^ 59,
        postOnly = Some True, reduceOnly = Some False, clientId = None \<rparr>]"
proof -
  let ?m = "\<lparr> m_id = ''0'', m_symbol = ''BTC/USD:USD'', pricePrecision = 1,
                          sizePrecision = 5, minSize = 1 / 100000, tickSize = 1 / 10 \<rparr>"
  let ?q = "\<lparr> config = mergeConfig ''hyperliquid'' ''BTC'', market = Some ?m \<rparr>"
  let ?quote = "\<lparr> bidPrice = 49975, askPrice = 50025, bidSize = 0,
       askSize = 1152921504606847 / 2 ^ 59,
       fairPrice = 50000, q_spreadBps = 5, isCloseMode = True \<rparr>"
  have btc: "cfg_symbol (config ?q) = ''BTC''"
    by (simp add: mergeConfig_def)
  have mkt: "market ?q = Some ?m" and prec: "sizePrecision ?m = 5"
    by simp_all
  have sides: "map o_side (quoteToOrders ?q ?quote) = [sell]"
    and flags: "\<forall>ord \<in> set (quoteToOrders ?q ?quote). postOnly ord = Some True \<and> reduceOnly ord = Some False"
    using quoteToOrders_sides[of ?q ?quote True] by simp_all
  obtain ord where one: "quoteToOrders ?q ?quote = [ord]"
    using sides by (cases "quoteToOrders ?q ?quote") auto
  have side: "o_side ord = sell"
    using sides one by simp
  have post: "postOnly ord = Some True" and reduce: "reduceOnly ord = Some False"
    using flags one by simp_all
  have "quoteToOrders ?q ?quote
          = [\<lparr> o_symbol = ''BTC'', o_side = sell, o_type = limit,
               o_price = roundToTick_binary64 ?q 50025 up,
               o_size = roundSize ?q (1152921504606847 / 2 ^ 59),
               postOnly = Some True, reduceOnly = Some False, clientId = None \<rparr>]"
    by (simp add: quoteToOrders_def mergeConfig_def)
  then have ord: "ord = \<lparr> o_symbol = ''BTC'', o_side = sell, o_type = limit,
               o_price = roundToTick_binary64 ?q 50025 up,
               o_size = roundSize ?q (1152921504606847 / 2 ^ 59),
               postOnly = Some True, reduceOnly = Some False, clientId = None \<rparr>"
    by (simp only: one list.inject)
  have "o_price ord = roundToTick_binary64 ?q 50025 up"
    and "o_size ord = roundSize ?q (1152921504606847 / 2 ^ 59)"
    and rest: "o_symbol ord = ''BTC''" "o_type ord = limit" "clientId ord = None"
    by (simp_all add: ord)
  then have "o_price ord = 50025" and "o_size ord = 1152921504606847 / 2 ^ 59"
    by (simp_all only: roundToTick_binary64_close[OF btc] roundSize_baseSize(2)[OF mkt prec])
  then show ?thesis
    using one side post reduce rest by (cases ord) simp
qed

text \<open>
  C7 says that rounding a price down to the tick never gives more than the price, and
  rounding up never less. As the program computes it, in binary64, both fail for a BTC
  quoter. The default configuration at the fair price 26700 has the raw bid
  \<^verbatim>\<open>26700 * (1 - 10 / 10000)\<close>, the binary64 value 26673.3
  (\<open>7331900875289395 / 2\<^sup>3\<^sup>8\<close>); \<^verbatim>\<open>26673.3 / 0.1\<close> rounds to the integer
  266733, \<^verbatim>\<open>Math.floor\<close> keeps it, and \<^verbatim>\<open>266733 * 0.1\<close> rounds to
  26673.300000000003 (\<open>7331900875289396 / 2\<^sup>3\<^sup>8\<close>), the binary64 value next above the
  raw bid: with a market set the quoted bid is above the raw bid. In the other direction the
  price 130632.00000000001 (\<open>8976962684977153 / 2\<^sup>3\<^sup>6\<close>) is rounded up to 130632.
\<close>

theorem roundToTick_binary64_narrows:
  "fst (generateQuotes_prices_binary64
          \<lparr> config = mergeConfig ''hyperliquid'' ''BTC'', market = None \<rparr> 26700 0)
     = 7331900875289395 / 2 ^ 38
   \<and> roundToTick_binary64 \<lparr> config = mergeConfig ''hyperliquid'' ''BTC'', market = None \<rparr>
        (7331900875289395 / 2 ^ 38) down
     = 7331900875289396 / 2 ^ 38
   \<and> roundToTick_binary64 \<lparr> config = mergeConfig ''hyperliquid'' ''BTC'', market = None \<rparr>
        (7331900875289395 / 2 ^ 38) down
     > 7331900875289395 / 2 ^ 38
   \<and> fst (generateQuotes_prices_binary64
          \<lparr> config = mergeConfig ''hyperliquid'' ''BTC'',
            market = Some \<lparr> m_id = ''0'', m_symbol = ''BTC/USD:USD'', pricePrecision = 1,
                            sizePrecision = 5, minSize = 1 / 100000, tickSize = 1 / 10 \<rparr> \<rparr>
          26700 0)
     = 7331900875289396 / 2 ^ 38
   \<and> roundToTick_binary64 \<lparr> config = mergeConfig ''hyperliquid'' ''BTC'', market = None \<rparr>
        (8976962684977153 / 2 ^ 36) up
     = 130632
   \<and> roundToTick_binary64 \<lparr> config = mergeConfig ''hyperliquid'' ''BTC'', market = None \<rparr>
        (8976962684977153 / 2 ^ 36) up
     < 8976962684977153 / 2 ^ 36"
proof -
  let ?q = "\<lparr> config = mergeConfig ''hyperliquid'' ''BTC'', market = None \<rparr>"
  let ?qm = "\<lparr> config = mergeConfig ''hyperliquid'' ''BTC'',
            market = Some \<lparr> m_id = ''0'', m_symbol = ''BTC/USD:USD'', pricePrecision = 1,
                            sizePrecision = 5, minSize = 1 / 100000, tickSize = 1 / 10 \<rparr> \<rparr>"
  have btc: "cfg_symbol (config ?q) = ''BTC''" "cfg_symbol (config ?qm) = ''BTC''"
    by (simp_all add: mergeConfig_def)
  have rawBid: "binary64 (26700 * binary64 (1 - binary64 (10 / 10000))) = 7331900875289395 / 2 ^ 38"
    by (simp only: binary64_thousandth binary64_one_minus binary64_rawBid)
  have "fst (generateQuotes_prices_binary64 ?q 26700 0)
          = binary64 (26700 * binary64 (1 - binary64 (10 / 10000)))"
    by (simp add: generateQuotes_prices_binary64_def mergeConfig_def Let_def)
  then have raw: "fst (generateQuotes_prices_binary64 ?q 26700 0) = 7331900875289395 / 2 ^ 38"
    by (simp only: rawBid)
  have rounded: "roundToTick_binary64 qq (7331900875289395 / 2 ^ 38) down = 7331900875289396 / 2 ^ 38"
    if "cfg_symbol (config qq) = ''BTC''" for qq
  proof -
    have "roundToTick_binary64 qq (7331900875289395 / 2 ^ 38) down
          = binary64 (of_int \<lfloor>binary64 ((7331900875289395 / 2 ^ 38) / (3602879701896397 / 2 ^ 55))\<rfloor>
                       * (3602879701896397 / 2 ^ 55))"
      by (rule roundToTick_binary64_BTC(1)[OF that])
    also have "\<dots> = binary64 (266733 * (3602879701896397 / 2 ^ 55))"
      by (simp only: binary64_bid_quotient) simp
    also have "\<dots> = 7331900875289396 / 2 ^ 38"
      by (rule binary64_bid_product)
    finally show ?thesis .
  qed
  have "fst (generateQuotes_prices_binary64 ?qm 26700 0)
          = roundToTick_binary64 ?qm (binary64 (26700 * binary64 (1 - binary64 (10 / 10000)))) down"
    by (simp add: generateQuotes_prices_binary64_def mergeConfig_def Let_def)
  then have quoted: "fst (generateQuotes_prices_binary64 ?qm 26700 0) = 7331900875289396 / 2 ^ 38"
    by (simp only: rawBid rounded[OF btc(2)])
  have "roundToTick_binary64 ?q (8976962684977153 / 2 ^ 36) up
          = binary64 (of_int \<lceil>binary64 ((8976962684977153 / 2 ^ 36) / (3602879701896397 / 2 ^ 55))\<rceil>
                       * (3602879701896397 / 2 ^ 55))"
    by (rule roundToTick_binary64_BTC(2)[OF btc(1)])
  also have "\<dots> = binary64 (1306320 * (3602879701896397 / 2 ^ 55))"
    by (simp only: binary64_ask_quotient) simp
  also have "\<dots> = 130632"
    by (rule binary64_ask_product)
  finally have ask: "roundToTick_binary64 ?q (8976962684977153 / 2 ^ 36) up = 130632" .
  have bidAbove: "(7331900875289395::real) / 2 ^ 38 < 7331900875289396 / 2 ^ 38"
    and askBelow: "(130632::real) < 8976962684977153 / 2 ^ 36"
    by simp_all
  show ?thesis
    by (simp only: raw rounded[OF btc(1)] quoted ask bidAbove askBelow)
qed

end
